theory Spec2Isabelle
  imports Complex_Main "HOL-Library.Sublist"
begin

section \<open>Common conventions\<close>

text \<open>
  The track-point tables of pyft are pandas DataFrames: a table is modelled as the list
  of its rows, a column as the list of its cells. A cell that pandas shows as
  \<^verbatim>\<open>NaN\<close>, \<^verbatim>\<open>NaT\<close> or \<^verbatim>\<open>None\<close> is \<open>None\<close>; a present number is
  \<open>Some x\<close>. Floating-point numbers, timestamps and time differences (in seconds) are
  modelled by exact reals, so rounding is not part of the model. Python exceptions are
  values of the type \<open>error\<close>, returned as \<open>Inl\<close>.
\<close>

datatype error = ValueError | IndexError | AttributeError

type_synonym cell = "real option"

text \<open>Elementwise arithmetic of pandas columns: a missing operand gives a missing result.\<close>

definition nan_sub :: "cell \<Rightarrow> cell \<Rightarrow> cell" where
  "nan_sub a b = (case (a, b) of (Some x, Some y) \<Rightarrow> Some (x - y) | _ \<Rightarrow> None)"

definition nan_add :: "cell \<Rightarrow> cell \<Rightarrow> cell" where
  "nan_add a b = (case (a, b) of (Some x, Some y) \<Rightarrow> Some (x + y) | _ \<Rightarrow> None)"

definition nan_mul :: "cell \<Rightarrow> cell \<Rightarrow> cell" where
  "nan_mul a b = (case (a, b) of (Some x, Some y) \<Rightarrow> Some (x * y) | _ \<Rightarrow> None)"

text \<open>
  A floating-point division by zero gives an infinity or \<^verbatim>\<open>NaN\<close>, never an exception;
  the product of either with a time difference is \<^verbatim>\<open>NaT\<close>. The model has one missing
  value for all of them.
\<close>

definition nan_div :: "cell \<Rightarrow> cell \<Rightarrow> cell" where
  "nan_div a b =
     (case (a, b) of (Some x, Some y) \<Rightarrow> (if y = 0 then None else Some (x / y)) | _ \<Rightarrow> None)"

text \<open>\<^verbatim>\<open>Series.fillna(0)\<close> on one cell.\<close>

definition fillna0 :: "cell \<Rightarrow> real" where
  "fillna0 c = (case c of None \<Rightarrow> 0 | Some x \<Rightarrow> x)"

text \<open>
  \<^verbatim>\<open>Series.shift(periods, fill_value)\<close>: the cells move \<open>periods\<close> places towards the
  end (towards the start for a negative number), the vacated places hold \<open>fill\<close>, and the
  length stays.
\<close>

definition shift :: "int \<Rightarrow> 'a \<Rightarrow> 'a list \<Rightarrow> 'a list" where
  "shift periods fill xs =
     (let l = length xs; k = min (nat \<bar>periods\<bar>) l
      in if 0 \<le> periods then replicate k fill @ take (l - k) xs
         else drop k xs @ replicate k fill)"

text \<open>
  \<^verbatim>\<open>df.iloc[i]\<close> takes the row at position \<open>i\<close>, or at \<open>length + i\<close> when \<open>i\<close> is
  negative, and raises IndexError when there is no such row.
\<close>

definition iloc :: "'a list \<Rightarrow> int \<Rightarrow> error + 'a" where
  "iloc xs i =
     (if 0 \<le> i \<and> i < int (length xs) then Inr (xs ! nat i)
      else if i < 0 \<and> - int (length xs) \<le> i then Inr (xs ! nat (int (length xs) + i))
      else Inl IndexError)"

section \<open>Rows\<close>

text \<open>
  The nine columns of \<^verbatim>\<open>BaseParser.INITIAL_COL_NAMES\<close>; this is also the dictionary
  that \<^verbatim>\<open>FITParser._add_point\<close> builds.
\<close>

record raw_point =
  point_no :: int
  track_no :: int
  segment_no :: int
  latitude :: cell
  longitude :: cell
  elevation :: cell
  time :: cell
  hr :: "int option"
  cadence :: "int option"

record lap =
  start_time :: cell

section \<open>Lap helpers (\<^verbatim>\<open>pyft/df_utils/helper_funcs.py\<close>)\<close>

text \<open>
  \<^verbatim>\<open>
  def get_lap_durations(laps, points):
      start_times = laps['start_time']
      return start_times - start_times.shift(-1, fill_value=points.iloc[-1]['time'])
  \<close>
\<close>

definition get_lap_durations ::
  "lap list \<Rightarrow> ('a raw_point_scheme) list \<Rightarrow> error + cell list" where
  "get_lap_durations laps points =
     (case iloc points (- 1) of
        Inl e \<Rightarrow> Inl e
      | Inr p \<Rightarrow>
          (let start_times = map start_time laps
           in Inr (map2 nan_sub start_times (shift (- 1) (time p) start_times))))"

text \<open>A row that carries only a time, for examples.\<close>

definition point_at :: "real \<Rightarrow> raw_point" where
  "point_at t =
     \<lparr>point_no = 0, track_no = 0, segment_no = 0, latitude = None, longitude = None,
      elevation = None, time = Some t, hr = None, cadence = None\<rparr>"

section \<open>The FIT parser (\<^verbatim>\<open>pyft/serialize/parse.py\<close>, class \<^verbatim>\<open>FITParser\<close>)\<close>

text \<open>
  The mutable attributes of a \<^verbatim>\<open>FITParser\<close>: the counter \<^verbatim>\<open>_point\<close> (initially -1),
  the emitted rows \<^verbatim>\<open>_points_data\<close> and the pending buffer \<^verbatim>\<open>_backfill\<close>.
\<close>

record fit_state =
  point_counter :: int
  points_data :: "raw_point list"
  backfill :: "raw_point list"

definition fit_init :: fit_state where
  "fit_init = \<lparr>point_counter = - 1, points_data = [], backfill = []\<rparr>"

definition LATLON_TO_DECIMAL :: real where
  "LATLON_TO_DECIMAL = 2 ^ 32 / 360"

definition get_point_no :: "fit_state \<Rightarrow> int \<times> fit_state" where
  "get_point_no s = (point_counter s + 1, s\<lparr>point_counter := point_counter s + 1\<rparr>)"

text \<open>
  The dictionary \<^verbatim>\<open>data\<close> of \<^verbatim>\<open>_add_point\<close>, with the point number it was given:
  latitude and longitude start as \<^verbatim>\<open>None\<close> and are set to the scaled raw value when the
  raw value is present.
\<close>

definition point_data ::
  "int \<Rightarrow> cell \<Rightarrow> cell \<Rightarrow> cell \<Rightarrow> cell \<Rightarrow> int option \<Rightarrow> int option \<Rightarrow> raw_point" where
  "point_data n lat lon elev timestamp heart_rate cad =
     \<lparr>point_no = n, track_no = 0, segment_no = 0,
      latitude = (case lat of None \<Rightarrow> None | Some x \<Rightarrow> Some (x / LATLON_TO_DECIMAL)),
      longitude = (case lon of None \<Rightarrow> None | Some x \<Rightarrow> Some (x / LATLON_TO_DECIMAL)),
      elevation = elev, time = timestamp, hr = heart_rate, cadence = cad\<rparr>"

text \<open>
  One key of the loop \<^verbatim>\<open>for k in data\<close>:
  \<^verbatim>\<open>if (to_add[k] is None) and (data[k] is not None): to_add[k] = data[k]\<close>.
\<close>

definition fill_key :: "'a option \<Rightarrow> 'a option \<Rightarrow> 'a option" where
  "fill_key to_add_k data_k = (if to_add_k = None \<and> data_k \<noteq> None then data_k else to_add_k)"

text \<open>
  The whole loop over the keys. The keys \<^verbatim>\<open>point_no\<close>, \<^verbatim>\<open>track_no\<close> and
  \<^verbatim>\<open>segment_no\<close> always hold integers, so the loop never assigns to them.
\<close>

definition fill_from :: "raw_point \<Rightarrow> raw_point \<Rightarrow> raw_point" where
  "fill_from data to_add =
     to_add\<lparr>latitude := fill_key (latitude to_add) (latitude data),
            longitude := fill_key (longitude to_add) (longitude data),
            elevation := fill_key (elevation to_add) (elevation data),
            time := fill_key (time to_add) (time data),
            hr := fill_key (hr to_add) (hr data),
            cadence := fill_key (cadence to_add) (cadence data)\<rparr>"

definition add_point ::
  "fit_state \<Rightarrow> cell \<Rightarrow> cell \<Rightarrow> cell \<Rightarrow> cell \<Rightarrow> int option \<Rightarrow> int option \<Rightarrow> fit_state" where
  "add_point s lat lon elev timestamp heart_rate cad =
     (let (n, s1) = get_point_no s;
          data = point_data n lat lon elev timestamp heart_rate cad
      in if lat = None \<or> lon = None then s1\<lparr>backfill := backfill s1 @ [data]\<rparr>
         else
           (let s2 = (if backfill s1 \<noteq> []
                      then s1\<lparr>points_data := points_data s1 @ map (fill_from data) (backfill s1),
                              backfill := []\<rparr>
                      else s1)
            in s2\<lparr>points_data := points_data s2 @ [data]\<rparr>))"

text \<open>
  The frames of the file. Of a data message only the fields that \<^verbatim>\<open>_parse\<close> reads for
  the points are kept. A message may lack a field, or have it with the invalid value of the
  FIT format, which the decoder hands out as \<^verbatim>\<open>None\<close>.
\<close>

datatype 'a field = Absent | Present "'a option"

record data_message =
  timestamp :: "real field"
  altitude :: "real field"
  position_lat :: "real field"
  position_long :: "real field"
  heart_rate :: "int field"
  fit_cadence :: "int field"

datatype fit_frame = FitDataMessage data_message | OtherFrame

text \<open>\<^verbatim>\<open>frame.has_field(name)\<close>: the message has the field, whatever its value.\<close>

definition has_field :: "'a field \<Rightarrow> bool" where
  "has_field f = (f \<noteq> Absent)"

text \<open>
  \<^verbatim>\<open>frame.get_value(name, fallback=None)\<close>: the value of the field, \<^verbatim>\<open>None\<close> when the
  message lacks it. The two calls without a fallback, for \<^verbatim>\<open>altitude\<close> and
  \<^verbatim>\<open>timestamp\<close>, are made only after \<^verbatim>\<open>has_field\<close> has answered yes, where a
  fallback plays no part.
\<close>

definition get_value :: "'a field \<Rightarrow> 'a option" where
  "get_value f = (case f of Absent \<Rightarrow> None | Present v \<Rightarrow> v)"

text \<open>
  The body of the loop of \<^verbatim>\<open>_parse\<close>, as far as the points go. (Its \<^verbatim>\<open>elif\<close> branch
  repeats the condition of the \<^verbatim>\<open>if\<close> and is never taken.)
  \<^verbatim>\<open>
  if frame.has_field('timestamp') and frame.has_field('altitude'):
      self._add_point(
          frame.get_value('position_lat', fallback=None),
          frame.get_value('position_long', fallback=None),
          frame.get_value('altitude'),
          frame.get_value('timestamp'),
          frame.get_value('heart_rate', fallback=None),
          frame.get_value('cadence', fallback=None))
  \<close>
\<close>

definition parse_frame :: "fit_state \<Rightarrow> fit_frame \<Rightarrow> fit_state" where
  "parse_frame s f =
     (case f of
        OtherFrame \<Rightarrow> s
      | FitDataMessage m \<Rightarrow>
          (if has_field (timestamp m) \<and> has_field (altitude m)
           then add_point s (get_value (position_lat m)) (get_value (position_long m))
                  (get_value (altitude m)) (get_value (timestamp m))
                  (get_value (heart_rate m)) (get_value (fit_cadence m))
           else s))"

fun parse_frames :: "fit_state \<Rightarrow> fit_frame list \<Rightarrow> fit_state" where
  "parse_frames s [] = s"
| "parse_frames s (f # fs) = parse_frames (parse_frame s f) fs"

text \<open>The rows that \<^verbatim>\<open>_parse\<close> hands on: \<^verbatim>\<open>self._points_data\<close> after the last frame.\<close>

definition fit_points_data :: "fit_frame list \<Rightarrow> raw_point list" where
  "fit_points_data frames = points_data (parse_frames fit_init frames)"

text \<open>
  A sample: a data message that has the fields \<^verbatim>\<open>timestamp\<close> and \<^verbatim>\<open>altitude\<close>
  (with any value, the invalid one included). These are the frames that reach
  \<^verbatim>\<open>_add_point\<close>.
\<close>

definition is_sample :: "fit_frame \<Rightarrow> bool" where
  "is_sample f =
     (case f of
        OtherFrame \<Rightarrow> False
      | FitDataMessage m \<Rightarrow> has_field (timestamp m) \<and> has_field (altitude m))"

text \<open>
  The row that \<^verbatim>\<open>_add_point\<close> builds from the message of a sample when the counter
  stands at \<open>n\<close>.
\<close>

definition sample_data :: "int \<Rightarrow> data_message \<Rightarrow> raw_point" where
  "sample_data n m =
     point_data (n + 1) (get_value (position_lat m)) (get_value (position_long m))
       (get_value (altitude m)) (get_value (timestamp m))
       (get_value (heart_rate m)) (get_value (fit_cadence m))"

text \<open>A frame that makes \<^verbatim>\<open>_parse\<close> emit rows: a sample with both coordinates.\<close>

definition has_position :: "fit_frame \<Rightarrow> bool" where
  "has_position f =
     (case f of
        OtherFrame \<Rightarrow> False
      | FitDataMessage m \<Rightarrow>
          has_field (timestamp m) \<and> has_field (altitude m)
          \<and> get_value (position_lat m) \<noteq> None \<and> get_value (position_long m) \<noteq> None)"

text \<open>
  Example frames: a sample with elevation, time and heart rate but no position; a later
  sample with a position (raw \<open>2^30\<close> and \<open>2^29\<close>, that is 90 and 45 degrees); and a
  sample with a position whose altitude field is there with the invalid value.
\<close>

definition sample_without_position :: fit_frame where
  "sample_without_position =
     FitDataMessage \<lparr>timestamp = Present (Some 1), altitude = Present (Some 5),
       position_lat = Absent, position_long = Absent, heart_rate = Present (Some 90),
       fit_cadence = Absent\<rparr>"

definition sample_with_position :: fit_frame where
  "sample_with_position =
     FitDataMessage \<lparr>timestamp = Present (Some 2), altitude = Present (Some 6),
       position_lat = Present (Some (2 ^ 30)), position_long = Present (Some (2 ^ 29)),
       heart_rate = Absent, fit_cadence = Present (Some 80)\<rparr>"

definition sample_with_invalid_altitude :: fit_frame where
  "sample_with_invalid_altitude =
     FitDataMessage \<lparr>timestamp = Present (Some 2), altitude = Present None,
       position_lat = Present (Some (2 ^ 30)), position_long = Present (Some (2 ^ 29)),
       heart_rate = Absent, fit_cadence = Present (Some 80)\<rparr>"

section \<open>Activity type of a GPX file (\<^verbatim>\<open>GPXParser.activity_type\<close>)\<close>

text \<open>
  What the property reads of the parsed file: the \<^verbatim>\<open>creator\<close> attribute of the
  \<^verbatim>\<open>gpx\<close> element and the \<^verbatim>\<open>type\<close> of every track. Both are optional in a GPX
  file, and gpxpy leaves \<^verbatim>\<open>None\<close> where the file has none.
\<close>

record gpx =
  creator :: "string option"
  tracks :: "string option list"

definition ACTIVITY_TYPES :: "string set" where
  "ACTIVITY_TYPES = {''run'', ''walk'', ''hike''}"

definition STRAVA_TYPES :: "string \<rightharpoonup> string" where
  "STRAVA_TYPES = [''4'' \<mapsto> ''hike'', ''9'' \<mapsto> ''run'', ''10'' \<mapsto> ''walk'']"

definition GARMIN_TYPES :: "string \<rightharpoonup> string" where
  "GARMIN_TYPES = [''hiking'' \<mapsto> ''hike'', ''running'' \<mapsto> ''run'', ''walking'' \<mapsto> ''walk'']"

text \<open>\<^verbatim>\<open>d.get(key, default)\<close>, where the key may be \<^verbatim>\<open>None\<close> (which no table holds).\<close>

definition dict_get :: "(string \<rightharpoonup> string) \<Rightarrow> string option \<Rightarrow> string \<Rightarrow> string" where
  "dict_get d key dflt =
     (case key of
        None \<Rightarrow> dflt
      | Some k \<Rightarrow> (case d k of None \<Rightarrow> dflt | Some v \<Rightarrow> v))"

text \<open>\<^verbatim>\<open>obj.startswith(p)\<close>: an AttributeError when \<^verbatim>\<open>obj\<close> is \<^verbatim>\<open>None\<close>.\<close>

definition startswith :: "string option \<Rightarrow> string \<Rightarrow> error + bool" where
  "startswith obj p = (case obj of None \<Rightarrow> Inl AttributeError | Some str \<Rightarrow> Inr (prefix p str))"

definition activity_type :: "gpx \<Rightarrow> error + string" where
  "activity_type g =
     (case iloc (tracks g) 0 of
        Inl e \<Rightarrow> Inl e
      | Inr track_type \<Rightarrow>
          (if track_type \<in> Some ` ACTIVITY_TYPES then Inr (the track_type)
           else
             (case startswith (creator g) ''StravaGPX'' of
                Inl e \<Rightarrow> Inl e
              | Inr True \<Rightarrow> Inr (dict_get STRAVA_TYPES track_type ''unknown'')
              | Inr False \<Rightarrow>
                  (case startswith (creator g) ''Garmin Connect'' of
                     Inl e \<Rightarrow> Inl e
                   | Inr True \<Rightarrow> Inr (dict_get GARMIN_TYPES track_type ''unknown'')
                   | Inr False \<Rightarrow> Inr ''unknown''))))"

section \<open>Derived columns (\<^verbatim>\<open>BaseParser.infer_points_data\<close>, \<^verbatim>\<open>pyft/serialize/parse.py\<close>)\<close>

record config =
  speed_measure_interval :: int

text \<open>The rows of the returned table: the nine input columns and the derived ones.\<close>

record point = raw_point +
  step_length_2d :: cell
  cumul_distance_2d :: real
  km :: int
  mile :: int
  run_time :: cell
  km_pace :: cell
  mile_pace :: cell

definition MILE :: real where
  "MILE = 1609.344"

text \<open>
  \<^verbatim>\<open>distance_2d\<close> is a method of the parser that hands its four columns to
  \<^verbatim>\<open>pyft.geo_utils.haversine_distance\<close>, a module that is not among the sources. The
  model takes the distance of one row as a parameter: from the latitude and longitude of
  the row and of the row before it (missing at the first row) to a length in metres.
\<close>

type_synonym distance = "cell \<Rightarrow> cell \<Rightarrow> cell \<Rightarrow> cell \<Rightarrow> cell"

text \<open>
  \<^verbatim>\<open>
  prev_lat = df['latitude'].shift()
  prev_lon = df['longitude'].shift()
  df['step_length_2d'] = self.distance_2d(df['latitude'], df['longitude'], prev_lat, prev_lon)
  \<close>
\<close>

definition step_length_2d_column :: "distance \<Rightarrow> ('a raw_point_scheme) list \<Rightarrow> cell list" where
  "step_length_2d_column distance_2d df =
     (let lat = map latitude df; lon = map longitude df;
          prev_lat = shift 1 None lat; prev_lon = shift 1 None lon
      in map (\<lambda>i. distance_2d (lat ! i) (lon ! i) (prev_lat ! i) (prev_lon ! i))
           [0..<length df])"

text \<open>\<^verbatim>\<open>Series.cumsum()\<close>: the running sum.\<close>

fun cumsum_from :: "real \<Rightarrow> real list \<Rightarrow> real list" where
  "cumsum_from acc [] = []"
| "cumsum_from acc (x # xs) = (acc + x) # cumsum_from (acc + x) xs"

definition cumsum :: "real list \<Rightarrow> real list" where
  "cumsum xs = cumsum_from 0 xs"

text \<open>\<^verbatim>\<open>df['cumul_distance_2d'] = df['step_length_2d'].fillna(0).cumsum()\<close>\<close>

definition cumul_distance_2d_column :: "cell list \<Rightarrow> real list" where
  "cumul_distance_2d_column step = cumsum (map fillna0 step)"

text \<open>
  The function. Its first check (a ValueError when one of the nine input columns is not
  there) cannot fail on a list of \<open>raw_point\<close> rows; \<^verbatim>\<open>df.iloc[0]\<close> raises IndexError
  on an empty table. The speed columns \<^verbatim>\<open>kmph\<close> and \<^verbatim>\<open>mph\<close>, computed from
  \<^verbatim>\<open>km_pace\<close> at the end, are left out.
  \<^verbatim>\<open>
  df['km'] = (df['cumul_distance_2d'] // 1000).astype(int)
  df['mile'] = (df['cumul_distance_2d'] // MILE).astype(int)
  df['run_time'] = df['time'] - df.iloc[0]['time']
  prev_time = df['time'].shift(self.config.speed_measure_interval)
  prev_cumul_distance = df['cumul_distance_2d'].shift(self.config.speed_measure_interval)
  interval_distance = df['cumul_distance_2d'] - prev_cumul_distance
  df['km_pace'] = (1000 / interval_distance) * (df['time'] - prev_time)
  df['mile_pace'] = (MILE / df['step_length_2d']) * (df['time'] - prev_time)
  \<close>
\<close>

definition infer_points_data :: "distance \<Rightarrow> config \<Rightarrow> raw_point list \<Rightarrow> error + point list" where
  "infer_points_data distance_2d cfg df =
     (let step = step_length_2d_column distance_2d df;
          cumul = cumul_distance_2d_column step;
          kms = map (\<lambda>c. \<lfloor>c / 1000\<rfloor>) cumul;
          miles = map (\<lambda>c. \<lfloor>c / MILE\<rfloor>) cumul
      in case iloc df 0 of
           Inl e \<Rightarrow> Inl e
         | Inr first \<Rightarrow>
             (let times = map time df;
                  run_times = map (\<lambda>t. nan_sub t (time first)) times;
                  prev_time = shift (speed_measure_interval cfg) None times;
                  prev_cumul_distance = shift (speed_measure_interval cfg) None (map Some cumul);
                  interval_distance = map2 nan_sub (map Some cumul) prev_cumul_distance;
                  time_diff = map2 nan_sub times prev_time;
                  km_paces = map2 nan_mul (map (nan_div (Some 1000)) interval_distance) time_diff;
                  mile_paces = map2 nan_mul (map (nan_div (Some MILE)) step) time_diff
              in Inr (map (\<lambda>i. raw_point.extend (df ! i)
                             (point.fields (step ! i) (cumul ! i) (kms ! i) (miles ! i)
                                (run_times ! i) (km_paces ! i) (mile_paces ! i)))
                        [0..<length df])))"

text \<open>
  Modelled from the spec: \<^verbatim>\<open>pyft.geo_utils.haversine_distance\<close> is not among the
  sources. The spec (4.1) has it as the great-circle (haversine) distance in metres on a
  sphere of the mean Earth radius, 6,371,000 m, with the result 0, not \<^verbatim>\<open>NaN\<close>, when
  an endpoint is the "no previous point" of the start of the series. Coordinates are in
  degrees.
\<close>

definition EARTH_RADIUS :: real where
  "EARTH_RADIUS = 6371000"

definition radians :: "real \<Rightarrow> real" where
  "radians deg = deg * pi / 180"

definition haversine_distance :: distance where
  "haversine_distance lat1 lon1 lat2 lon2 =
     (case (lat1, lon1, lat2, lon2) of
        (Some a1, Some o1, Some a2, Some o2) \<Rightarrow>
          (let dlat = radians a2 - radians a1; dlon = radians o2 - radians o1;
               h = (sin (dlat / 2))\<^sup>2 + cos (radians a1) * cos (radians a2) * (sin (dlon / 2))\<^sup>2
           in Some (2 * EARTH_RADIUS * arcsin (sqrt h)))
      | _ \<Rightarrow> Some 0)"

text \<open>
  A stand-in distance for examples that are to be computed: the sum of the differences
  in latitude and longitude, missing when a coordinate is missing.
\<close>

definition flat_distance :: distance where
  "flat_distance lat1 lon1 lat2 lon2 =
     (case (lat1, lon1, lat2, lon2) of
        (Some a1, Some o1, Some a2, Some o2) \<Rightarrow> Some (\<bar>a1 - a2\<bar> + \<bar>o1 - o2\<bar>)
      | _ \<Rightarrow> None)"

text \<open>An input row at a given latitude and time (longitude 0), for examples.\<close>

definition raw_at :: "real \<Rightarrow> real \<Rightarrow> raw_point" where
  "raw_at lat t =
     \<lparr>point_no = 0, track_no = 0, segment_no = 0, latitude = Some lat, longitude = Some 0,
      elevation = None, time = Some t, hr = None, cadence = None\<rparr>"

section \<open>Outlier handling of the pace (\<^verbatim>\<open>pyft/parse/parsers.py\<close>)\<close>

text \<open>
  The older parser module computes the kilometre pace from consecutive points and then
  smooths it. Its lines up to the smoothing (the rest of the function follows below):
  \<^verbatim>\<open>
  df['prev_time'] = df['time'].shift()
  df['km_pace'] = (1000 / df['step_length_2d']) * (df['time'] - df['prev_time'])
  mean_pace = df['km_pace'].mean()
  zscore = (df['km_pace'] - df['km_pace'].mean()) / df['km_pace'].std()
  rolling_mean = (df['km_pace'].shift(fill_value=mean_pace)
                  + df['km_pace'].shift(-1, fill_value=mean_pace)) / 2
  df['km_pace'] = df['km_pace'].where(np.abs(zscore) < 1, rolling_mean)
  \<close>
  The step length column is computed as in the newer module.
\<close>

definition parsers_km_pace :: "distance \<Rightarrow> ('a raw_point_scheme) list \<Rightarrow> cell list" where
  "parsers_km_pace distance_2d df =
     (let step = step_length_2d_column distance_2d df;
          times = map time df;
          prev_time = shift 1 None times
      in map2 nan_mul (map (nan_div (Some 1000)) step) (map2 nan_sub times prev_time))"

text \<open>The present cells of a column: pandas statistics skip the missing ones.\<close>

definition present :: "cell list \<Rightarrow> real list" where
  "present col = concat (map (\<lambda>c. case c of None \<Rightarrow> [] | Some v \<Rightarrow> [v]) col)"

text \<open>\<^verbatim>\<open>Series.mean()\<close>: missing when no cell is present.\<close>

definition mean :: "cell list \<Rightarrow> cell" where
  "mean col =
     (let vs = present col
      in if vs = [] then None else Some (sum_list vs / real (length vs)))"

text \<open>
  \<^verbatim>\<open>Series.std()\<close>: the sample standard deviation (divisor \<open>n - 1\<close>) of the present
  cells, missing when fewer than two are present.
\<close>

definition std :: "cell list \<Rightarrow> cell" where
  "std col =
     (let vs = present col; n = length vs
      in if n < 2 then None
         else (let m = sum_list vs / real n
               in Some (sqrt (sum_list (map (\<lambda>v. (v - m)\<^sup>2) vs) / real (n - 1)))))"

definition zscore :: "cell list \<Rightarrow> cell list" where
  "zscore km_pace_col = map (\<lambda>v. nan_div (nan_sub v (mean km_pace_col)) (std km_pace_col)) km_pace_col"

definition rolling_mean :: "cell list \<Rightarrow> cell list" where
  "rolling_mean km_pace_col =
     (let mean_pace = mean km_pace_col
      in map2 (\<lambda>a b. nan_div (nan_add a b) (Some 2))
           (shift 1 mean_pace km_pace_col) (shift (- 1) mean_pace km_pace_col))"

text \<open>
  \<^verbatim>\<open>np.abs(zscore) < 1\<close>: a comparison with \<^verbatim>\<open>NaN\<close> is false.
\<close>

definition abs_lt_1 :: "cell \<Rightarrow> bool" where
  "abs_lt_1 z = (case z of None \<Rightarrow> False | Some v \<Rightarrow> \<bar>v\<bar> < 1)"

text \<open>\<^verbatim>\<open>col.where(cond, other)\<close>: the cell of \<open>col\<close> where \<open>cond\<close> holds, else that of \<open>other\<close>.\<close>

definition where_col :: "'a list \<Rightarrow> bool list \<Rightarrow> 'a list \<Rightarrow> 'a list" where
  "where_col col cond other =
     map (\<lambda>i. if cond ! i then col ! i else other ! i) [0..<length col]"

text \<open>The smoothed column, which replaces \<^verbatim>\<open>df['km_pace']\<close>.\<close>

definition km_pace_smoothed :: "cell list \<Rightarrow> cell list" where
  "km_pace_smoothed km_pace_col =
     where_col km_pace_col (map abs_lt_1 (zscore km_pace_col)) (rolling_mean km_pace_col)"

text \<open>
  The whole function of the older module. After the smoothing it removes every row that has
  a missing cell in any column, the helper columns \<^verbatim>\<open>prev_lat\<close>, \<^verbatim>\<open>prev_lon\<close> and
  \<^verbatim>\<open>prev_time\<close> among them; the mile pace and the running time are computed on
  the rows that are left, and \<^verbatim>\<open>df.iloc[0]\<close> raises IndexError when none is left. (The
  columns \<^verbatim>\<open>cumul_distance_2d\<close>, \<^verbatim>\<open>km\<close> and \<^verbatim>\<open>mile\<close> never have a missing cell;
  the speed columns are left out as before.)
  \<^verbatim>\<open>
  df['km_pace'] = df['km_pace'].where(np.abs(zscore) < 1, rolling_mean)
  df.dropna(inplace=True)
  df['mile_pace'] = (MILE / df['step_length_2d']) * (df['time'] - df['prev_time'])
  df['run_time'] = df['time'] - df.iloc[0]['time']
  df.drop(['prev_lat', 'prev_lon', 'prev_time'], axis=1, inplace=True)
  \<close>
\<close>

definition parsers_infer_points_data :: "distance \<Rightarrow> raw_point list \<Rightarrow> error + point list" where
  "parsers_infer_points_data distance_2d df =
     (let prev_lat = shift 1 None (map latitude df);
          prev_lon = shift 1 None (map longitude df);
          step = step_length_2d_column distance_2d df;
          cumul = cumul_distance_2d_column step;
          kms = map (\<lambda>c. \<lfloor>c / 1000\<rfloor>) cumul;
          miles = map (\<lambda>c. \<lfloor>c / MILE\<rfloor>) cumul;
          prev_time = shift 1 None (map time df);
          km_paces = km_pace_smoothed (parsers_km_pace distance_2d df);
          kept = filter (\<lambda>i. latitude (df ! i) \<noteq> None \<and> longitude (df ! i) \<noteq> None
                              \<and> elevation (df ! i) \<noteq> None \<and> time (df ! i) \<noteq> None
                              \<and> hr (df ! i) \<noteq> None \<and> cadence (df ! i) \<noteq> None
                              \<and> prev_lat ! i \<noteq> None \<and> prev_lon ! i \<noteq> None
                              \<and> step ! i \<noteq> None \<and> prev_time ! i \<noteq> None
                              \<and> km_paces ! i \<noteq> None)
                   [0..<length df]
      in case iloc kept 0 of
           Inl e \<Rightarrow> Inl e
         | Inr first \<Rightarrow>
             Inr (map (\<lambda>i. raw_point.extend (df ! i)
                            (point.fields (step ! i) (cumul ! i) (kms ! i) (miles ! i)
                               (nan_sub (time (df ! i)) (time (df ! first)))
                               (km_paces ! i)
                               (nan_mul (nan_div (Some MILE) (step ! i))
                                  (nan_sub (time (df ! i)) (prev_time ! i)))))
                    kept))"

text \<open>
  An example track along a meridian: four complete rows one degree of latitude and ten
  seconds apart.
\<close>

definition meridian_point :: "int \<Rightarrow> raw_point" where
  "meridian_point n =
     \<lparr>point_no = n, track_no = 0, segment_no = 0, latitude = Some (real_of_int n),
      longitude = Some 0, elevation = Some 0, time = Some (10 * real_of_int n),
      hr = Some 100, cadence = Some 80\<rparr>"

definition meridian_track :: "raw_point list" where
  "meridian_track = [meridian_point 0, meridian_point 1, meridian_point 2, meridian_point 3]"

section \<open>Split markers (\<^verbatim>\<open>Activity.get_split_markers\<close>, \<^verbatim>\<open>pyft/activity.py\<close>)\<close>

text \<open>
  Modelled from the spec: \<^verbatim>\<open>pyft.geo_utils.intersect_points\<close> is not among the
  sources. The spec (4.4, 3) has the marker as the linear interpolation between \<open>p1\<close> and
  \<open>p2\<close> at the fraction \<open>portion\<close>, of latitude, longitude, elevation, heart rate,
  cadence and time, with a cumulative distance of its own. A missing operand gives a
  missing field.
\<close>

record split_point =
  sp_latitude :: cell
  sp_longitude :: cell
  sp_elevation :: cell
  sp_time :: cell
  sp_hr :: cell
  sp_cadence :: cell
  sp_cumul_distance_2d :: cell

definition interpolate :: "cell \<Rightarrow> cell \<Rightarrow> cell \<Rightarrow> cell" where
  "interpolate a b portion = nan_add a (nan_mul portion (nan_sub b a))"

definition intersect_points :: "point \<Rightarrow> point \<Rightarrow> cell \<Rightarrow> split_point" where
  "intersect_points p1 p2 portion =
     \<lparr>sp_latitude = interpolate (latitude p1) (latitude p2) portion,
      sp_longitude = interpolate (longitude p1) (longitude p2) portion,
      sp_elevation = interpolate (elevation p1) (elevation p2) portion,
      sp_time = interpolate (time p1) (time p2) portion,
      sp_hr = interpolate (map_option real_of_int (hr p1)) (map_option real_of_int (hr p2)) portion,
      sp_cadence =
        interpolate (map_option real_of_int (cadence p1)) (map_option real_of_int (cadence p2))
          portion,
      sp_cumul_distance_2d =
        interpolate (Some (cumul_distance_2d p1)) (Some (cumul_distance_2d p2)) portion\<rparr>"

text \<open>A marker: the interpolated row with the two split numbers it separates.\<close>

record marker = split_point +
  ends :: int
  begins :: int

text \<open>\<^verbatim>\<open>df[split_col]\<close>, for the two column names that pass the first check.\<close>

definition split_column :: "string \<Rightarrow> point \<Rightarrow> int" where
  "split_column split_col p = (if split_col = ''km'' then km p else mile p)"

text \<open>\<^verbatim>\<open>df[df[split_col] == v]\<close>: the rows of split \<open>v\<close>, in order.\<close>

definition split_rows :: "(point \<Rightarrow> int) \<Rightarrow> int \<Rightarrow> point list \<Rightarrow> point list" where
  "split_rows col v df = filter (\<lambda>p. col p = v) df"

text \<open>
  The three numbers of the loop body. The division is one of numpy floats: by zero it
  gives no exception but a missing (or infinite) fraction.
\<close>

definition overrun :: "real \<Rightarrow> int \<Rightarrow> point \<Rightarrow> real" where
  "overrun split_len i p2 = cumul_distance_2d p2 - split_len * real_of_int i"

definition underrun :: "real \<Rightarrow> int \<Rightarrow> point \<Rightarrow> real" where
  "underrun split_len i p1 = split_len * real_of_int i - cumul_distance_2d p1"

definition portion_of :: "real \<Rightarrow> int \<Rightarrow> point \<Rightarrow> point \<Rightarrow> cell" where
  "portion_of split_len i p1 p2 =
     nan_div (Some (underrun split_len i p1))
       (Some (underrun split_len i p1 + overrun split_len i p2))"

text \<open>
  The body of the loop for one \<open>i\<close>:
  \<^verbatim>\<open>
  p1 = df[df[split_col] == i - 1].iloc[-1]
  p2 = df[df[split_col] == i].iloc[0]
  overrun = p2['cumul_distance_2d'] - (split_len * i)
  underrun = (split_len * i) - p1['cumul_distance_2d']
  portion = underrun / (underrun + overrun)
  m = intersect_points(p1, p2, portion)
  m['ends'] = i - 1
  m['begins'] = i
  \<close>
\<close>

definition split_marker :: "point list \<Rightarrow> (point \<Rightarrow> int) \<Rightarrow> real \<Rightarrow> int \<Rightarrow> error + marker" where
  "split_marker df col split_len i =
     (case iloc (split_rows col (i - 1) df) (- 1) of
        Inl e \<Rightarrow> Inl e
      | Inr p1 \<Rightarrow>
          (case iloc (split_rows col i df) 0 of
             Inl e \<Rightarrow> Inl e
           | Inr p2 \<Rightarrow>
               Inr (split_point.extend (intersect_points p1 p2 (portion_of split_len i p1 p2))
                      (marker.fields (i - 1) i))))"

text \<open>The loop: the first failing \<open>i\<close> ends it with its exception.\<close>

fun markers_loop :: "point list \<Rightarrow> (point \<Rightarrow> int) \<Rightarrow> real \<Rightarrow> int list \<Rightarrow> error + marker list" where
  "markers_loop df col split_len [] = Inr []"
| "markers_loop df col split_len (i # rest) =
     (case split_marker df col split_len i of
        Inl e \<Rightarrow> Inl e
      | Inr m \<Rightarrow>
          (case markers_loop df col split_len rest of
             Inl e \<Rightarrow> Inl e
           | Inr ms \<Rightarrow> Inr (m # ms)))"

text \<open>
  The function. On an empty table \<^verbatim>\<open>min()\<close> is \<^verbatim>\<open>NaN\<close> and \<^verbatim>\<open>int(min_split)\<close>
  raises ValueError; \<^verbatim>\<open>range(int(min_split) + 1, int(max_split) + 1)\<close> is the list
  \<open>[min_split + 1 .. max_split]\<close>.
\<close>

definition get_split_markers :: "point list \<Rightarrow> string \<Rightarrow> error + marker list" where
  "get_split_markers df split_col =
     (case (if split_col = ''km'' then Inr 1000
            else if split_col = ''mile'' then Inr MILE
            else Inl ValueError) of
        Inl e \<Rightarrow> Inl e
      | Inr split_len \<Rightarrow>
          (if df = [] then Inl ValueError
           else
             (let min_split = Min (set (map (split_column split_col) df));
                  max_split = Max (set (map (split_column split_col) df))
              in markers_loop df (split_column split_col) split_len [min_split + 1 .. max_split])))"

text \<open>
  A row at a given cumulative distance and time, with the split numbers the parser would
  give it, for examples.
\<close>

definition point_on_track :: "real \<Rightarrow> real \<Rightarrow> point" where
  "point_on_track c t =
     \<lparr>point_no = 0, track_no = 0, segment_no = 0, latitude = Some 0, longitude = Some 0,
      elevation = None, time = Some t, hr = None, cadence = None,
      step_length_2d = None, cumul_distance_2d = c, km = \<lfloor>c / 1000\<rfloor>, mile = \<lfloor>c / MILE\<rfloor>,
      run_time = None, km_pace = None, mile_pace = None\<rparr>"

text \<open>Example tracks: one that enters every kilometre, and one that skips kilometre 1.\<close>

definition track2400 :: "point list" where
  "track2400 = [point_on_track 0 0, point_on_track 600 60, point_on_track 1200 120,
                point_on_track 1800 180, point_on_track 2400 240]"

definition jump_track :: "point list" where
  "jump_track = [point_on_track 0 0, point_on_track 900 90, point_on_track 2100 210]"

section \<open>Properties of the lap helpers\<close>

lemma iloc_last: "iloc xs (- 1) = (if xs = [] then Inl IndexError else Inr (last xs))"
  by (cases xs rule: rev_cases) (simp_all add: iloc_def Let_def nth_append)

lemma shift_minus_one:
  "shift (- 1) fill xs = (if xs = [] then [] else tl xs @ [fill])"
  by (cases xs) (simp_all add: shift_def Let_def)

lemma get_lap_durations_length:
  "get_lap_durations laps points = Inr ds \<Longrightarrow> length ds = length laps"
  by (auto simp: get_lap_durations_def iloc_last shift_minus_one Let_def split: if_splits)

text \<open>
  What the code computes in general: every entry is the lap's own start minus the next
  start (minus the last point time for the final lap), the reverse of a duration.
\<close>

lemma get_lap_durations_nth:
  assumes "points \<noteq> []" and "i < length laps"
  shows "\<exists>ds. get_lap_durations laps points = Inr ds \<and>
           ds ! i = nan_sub (start_time (laps ! i))
                      (if Suc i < length laps then start_time (laps ! Suc i)
                       else time (last points))"
proof -
  let ?st = "map start_time laps"
  have ne: "laps \<noteq> []" using assms(2) by auto
  have sh: "shift (- 1) (time (last points)) ?st = tl ?st @ [time (last points)]"
    using ne by (simp add: shift_minus_one)
  have nth: "(tl ?st @ [time (last points)]) ! i =
      (if Suc i < length laps then start_time (laps ! Suc i) else time (last points))"
    using assms(2) by (auto simp: nth_append nth_tl)
  show ?thesis
    using assms sh nth
    by (simp add: get_lap_durations_def iloc_last Let_def)
qed

text \<open>
  C2. The claim: lap \<open>i\<close> lasts \<open>start_time[i+1] - start_time[i]\<close>, the final lap lasts the
  last point time minus its own start, and the durations sum to the activity's duration.
  The code subtracts the other way round. With lap starts at 0 s and 10 s and the last
  point at 30 s it returns -10 s and -20 s where the claim (and the function's docstring,
  "Get durations of laps") asks for 10 s and 20 s; the sum is -30 s, not 30 s.
\<close>

theorem get_lap_durations_negated:
  "get_lap_durations [\<lparr>start_time = Some 0\<rparr>, \<lparr>start_time = Some 10\<rparr>]
        [point_at 0, point_at 10, point_at 30]
     = Inr [Some (- 10), Some (- 20)]"
  by (simp add: get_lap_durations_def iloc_def shift_def nan_sub_def point_at_def Let_def)

text \<open>
  C9 as stated: laps out of order make the lap operations fail with a SchemaError. The
  code has no such check: with lap starts 10 s, 0 s (decreasing) and a point series ending
  at 30 s, \<^verbatim>\<open>get_lap_durations\<close> returns a series and raises nothing.
\<close>

theorem get_lap_durations_unordered_no_error:
  "\<not> (\<exists>e. get_lap_durations [\<lparr>start_time = Some 10\<rparr>, \<lparr>start_time = Some 0\<rparr>]
              [point_at 0, point_at 30] = Inl e)"
  by (simp add: get_lap_durations_def iloc_def shift_def nan_sub_def point_at_def Let_def)

text \<open>
  C9 as amended: \<^verbatim>\<open>get_lap_durations\<close> does not look at the order of the lap start
  times. For every lap table, ordered or not, and every non-empty point table it returns
  one entry per lap; its only failure is the IndexError of \<^verbatim>\<open>points.iloc[-1]\<close> on an
  empty point table.
\<close>

theorem get_lap_durations_total:
  "(points \<noteq> [] \<longrightarrow> (\<exists>ds. get_lap_durations laps points = Inr ds \<and> length ds = length laps))
   \<and> (points = [] \<longrightarrow> get_lap_durations laps points = Inl IndexError)"
  by (simp add: get_lap_durations_def iloc_last Let_def shift_minus_one)

theorem get_lap_durations_total_witness:
  "[point_at 0, point_at 30] \<noteq> []
   \<and> (\<exists>ds. get_lap_durations [\<lparr>start_time = Some 10\<rparr>, \<lparr>start_time = Some 0\<rparr>]
              [point_at 0, point_at 30] = Inr ds \<and> length ds = 2)
   \<and> get_lap_durations [\<lparr>start_time = Some 10\<rparr>] ([] :: raw_point list) = Inl IndexError"
  using get_lap_durations_total
          [of "[point_at 0, point_at 30]" "[\<lparr>start_time = Some 10\<rparr>, \<lparr>start_time = Some 0\<rparr>]"]
        get_lap_durations_total [of "[] :: raw_point list" "[\<lparr>start_time = Some 10\<rparr>]"]
  by (simp add: numeral_2_eq_2)

section \<open>Properties of the FIT parser\<close>

lemma fill_key_cases:
  "fill_key a b = (case a of None \<Rightarrow> b | Some v \<Rightarrow> Some v)"
  by (cases a; cases b) (simp_all add: fill_key_def)

lemma add_point_buffered:
  assumes "lat = None \<or> lon = None"
  shows "points_data (add_point s lat lon elev t h c) = points_data s"
    and "backfill (add_point s lat lon elev t h c) =
           backfill s @ [point_data (point_counter s + 1) lat lon elev t h c]"
  using assms by (auto simp: add_point_def get_point_no_def Let_def)

lemma add_point_flush:
  assumes "lat \<noteq> None" and "lon \<noteq> None"
  shows "points_data (add_point s lat lon elev t h c) =
           points_data s
           @ map (fill_from (point_data (point_counter s + 1) lat lon elev t h c)) (backfill s)
           @ [point_data (point_counter s + 1) lat lon elev t h c]"
    and "backfill (add_point s lat lon elev t h c) = []"
  using assms by (auto simp: add_point_def get_point_no_def Let_def)

lemma parse_frames_append:
  "parse_frames s (xs @ ys) = parse_frames (parse_frames s xs) ys"
  by (induction xs arbitrary: s) simp_all

lemma parse_frame_no_position:
  "\<not> has_position f \<Longrightarrow> points_data (parse_frame s f) = points_data s"
  by (cases f) (auto simp: parse_frame_def has_position_def add_point_buffered)

lemma parse_frames_no_position:
  "\<forall>f \<in> set fs. \<not> has_position f \<Longrightarrow> points_data (parse_frames s fs) = points_data s"
  by (induction fs arbitrary: s) (simp_all add: parse_frame_no_position)

lemma parse_frame_sample:
  assumes "is_sample (FitDataMessage m)"
  shows "parse_frame s (FitDataMessage m) =
           add_point s (get_value (position_lat m)) (get_value (position_long m))
             (get_value (altitude m)) (get_value (timestamp m))
             (get_value (heart_rate m)) (get_value (fit_cadence m))"
  using assms by (simp add: parse_frame_def is_sample_def)

lemma parse_frame_buffers:
  assumes "is_sample (FitDataMessage m)" and "\<not> has_position (FitDataMessage m)"
  shows "points_data (parse_frame s (FitDataMessage m)) = points_data s
       \<and> backfill (parse_frame s (FitDataMessage m)) =
           backfill s @ [sample_data (point_counter s) m]"
proof -
  have "get_value (position_lat m) = None \<or> get_value (position_long m) = None"
    using assms by (auto simp: is_sample_def has_position_def)
  then show ?thesis
    unfolding parse_frame_sample [OF assms(1)] sample_data_def
    by (simp add: add_point_buffered)
qed

lemma parse_frame_flushes:
  assumes "has_position (FitDataMessage m)"
  shows "points_data (parse_frame s (FitDataMessage m)) =
           points_data s @ map (fill_from (sample_data (point_counter s) m)) (backfill s)
           @ [sample_data (point_counter s) m]
       \<and> backfill (parse_frame s (FitDataMessage m)) = []"
proof -
  have sm: "is_sample (FitDataMessage m)"
    and lat: "get_value (position_lat m) \<noteq> None" and lon: "get_value (position_long m) \<noteq> None"
    using assms by (auto simp: is_sample_def has_position_def)
  show ?thesis
    unfolding parse_frame_sample [OF sm] sample_data_def
    using add_point_flush [OF lat lon] by simp
qed

lemma parse_frame_skips: "\<not> is_sample f \<Longrightarrow> parse_frame s f = s"
  by (cases f) (auto simp: parse_frame_def is_sample_def)

text \<open>
  C3. (1) A sample without latitude or without longitude goes to the buffer and the
  emitted rows stay as they were. (2) A sample with both coordinates emits every buffered
  row, filled, in the order of arrival, then itself, and empties the buffer. (3) Filling
  gives a field of a buffered row the arriving sample's value exactly when the field was
  null, and keeps every present value and the three numbering fields. (4) Frames at the end of
  the stream with no position among them add nothing to the result: what they buffered is
  dropped. (5) In the loop over the frames, a data message that has the fields
  \<^verbatim>\<open>timestamp\<close> and \<^verbatim>\<open>altitude\<close> (whatever their values) is such a sample: without a
  position it is buffered, with one it flushes the buffer; every other frame changes
  nothing.
\<close>

theorem fit_backfill:
  "(lat = None \<or> lon = None \<longrightarrow>
      points_data (add_point s lat lon elev t h c) = points_data s
      \<and> backfill (add_point s lat lon elev t h c) =
          backfill s @ [point_data (point_counter s + 1) lat lon elev t h c])
   \<and> (lat \<noteq> None \<and> lon \<noteq> None \<longrightarrow>
      points_data (add_point s lat lon elev t h c) =
        points_data s
        @ map (fill_from (point_data (point_counter s + 1) lat lon elev t h c)) (backfill s)
        @ [point_data (point_counter s + 1) lat lon elev t h c]
      \<and> backfill (add_point s lat lon elev t h c) = [])
   \<and> (latitude (fill_from d b) = (case latitude b of None \<Rightarrow> latitude d | Some v \<Rightarrow> Some v)
      \<and> longitude (fill_from d b) = (case longitude b of None \<Rightarrow> longitude d | Some v \<Rightarrow> Some v)
      \<and> elevation (fill_from d b) = (case elevation b of None \<Rightarrow> elevation d | Some v \<Rightarrow> Some v)
      \<and> time (fill_from d b) = (case time b of None \<Rightarrow> time d | Some v \<Rightarrow> Some v)
      \<and> hr (fill_from d b) = (case hr b of None \<Rightarrow> hr d | Some v \<Rightarrow> Some v)
      \<and> cadence (fill_from d b) = (case cadence b of None \<Rightarrow> cadence d | Some v \<Rightarrow> Some v)
      \<and> point_no (fill_from d b) = point_no b
      \<and> track_no (fill_from d b) = track_no b
      \<and> segment_no (fill_from d b) = segment_no b)
   \<and> ((\<forall>f \<in> set trailing. \<not> has_position f) \<longrightarrow>
      fit_points_data (frames @ trailing) = fit_points_data frames)
   \<and> (is_sample (FitDataMessage m) \<and> \<not> has_position (FitDataMessage m) \<longrightarrow>
      points_data (parse_frame s (FitDataMessage m)) = points_data s
      \<and> backfill (parse_frame s (FitDataMessage m)) =
          backfill s @ [sample_data (point_counter s) m])
   \<and> (has_position (FitDataMessage m) \<longrightarrow>
      points_data (parse_frame s (FitDataMessage m)) =
        points_data s @ map (fill_from (sample_data (point_counter s) m)) (backfill s)
        @ [sample_data (point_counter s) m]
      \<and> backfill (parse_frame s (FitDataMessage m)) = [])
   \<and> (\<not> is_sample f \<longrightarrow> parse_frame s f = s)"
proof -
  have tail: "(\<forall>f \<in> set trailing. \<not> has_position f) \<longrightarrow>
      fit_points_data (frames @ trailing) = fit_points_data frames"
    by (simp add: fit_points_data_def parse_frames_append parse_frames_no_position)
  have fields: "latitude (fill_from d b) = (case latitude b of None \<Rightarrow> latitude d | Some v \<Rightarrow> Some v)
      \<and> longitude (fill_from d b) = (case longitude b of None \<Rightarrow> longitude d | Some v \<Rightarrow> Some v)
      \<and> elevation (fill_from d b) = (case elevation b of None \<Rightarrow> elevation d | Some v \<Rightarrow> Some v)
      \<and> time (fill_from d b) = (case time b of None \<Rightarrow> time d | Some v \<Rightarrow> Some v)
      \<and> hr (fill_from d b) = (case hr b of None \<Rightarrow> hr d | Some v \<Rightarrow> Some v)
      \<and> cadence (fill_from d b) = (case cadence b of None \<Rightarrow> cadence d | Some v \<Rightarrow> Some v)
      \<and> point_no (fill_from d b) = point_no b
      \<and> track_no (fill_from d b) = track_no b
      \<and> segment_no (fill_from d b) = segment_no b"
    by (simp add: fill_from_def fill_key_cases)
  have add: "(lat = None \<or> lon = None \<longrightarrow>
      points_data (add_point s lat lon elev t h c) = points_data s
      \<and> backfill (add_point s lat lon elev t h c) =
          backfill s @ [point_data (point_counter s + 1) lat lon elev t h c])
   \<and> (lat \<noteq> None \<and> lon \<noteq> None \<longrightarrow>
      points_data (add_point s lat lon elev t h c) =
        points_data s
        @ map (fill_from (point_data (point_counter s + 1) lat lon elev t h c)) (backfill s)
        @ [point_data (point_counter s + 1) lat lon elev t h c]
      \<and> backfill (add_point s lat lon elev t h c) = [])"
    using add_point_buffered [of lat lon s elev t h c] add_point_flush [of lat lon s elev t h c]
    by blast
  have loop: "(is_sample (FitDataMessage m) \<and> \<not> has_position (FitDataMessage m) \<longrightarrow>
      points_data (parse_frame s (FitDataMessage m)) = points_data s
      \<and> backfill (parse_frame s (FitDataMessage m)) =
          backfill s @ [sample_data (point_counter s) m])
   \<and> (has_position (FitDataMessage m) \<longrightarrow>
      points_data (parse_frame s (FitDataMessage m)) =
        points_data s @ map (fill_from (sample_data (point_counter s) m)) (backfill s)
        @ [sample_data (point_counter s) m]
      \<and> backfill (parse_frame s (FitDataMessage m)) = [])
   \<and> (\<not> is_sample f \<longrightarrow> parse_frame s f = s)"
    using parse_frame_buffers [of m s] parse_frame_flushes [of m s] parse_frame_skips [of f s]
    by blast
  show ?thesis
    using add fields tail loop by (intro conjI) blast+
qed

theorem fit_backfill_witness:
  "points_data (add_point fit_init None None (Some 5) (Some 1) (Some 90) None) = []
   \<and> backfill (add_point fit_init None None (Some 5) (Some 1) (Some 90) None) =
       [\<lparr>point_no = 0, track_no = 0, segment_no = 0, latitude = None, longitude = None,
         elevation = Some 5, time = Some 1, hr = Some 90, cadence = None\<rparr>]
   \<and> points_data
         (add_point (add_point fit_init None None (Some 5) (Some 1) (Some 90) None)
            (Some (2 ^ 30)) (Some (2 ^ 29)) (Some 6) (Some 2) None (Some 80)) =
       [\<lparr>point_no = 0, track_no = 0, segment_no = 0, latitude = Some 90, longitude = Some 45,
         elevation = Some 5, time = Some 1, hr = Some 90, cadence = Some 80\<rparr>,
        \<lparr>point_no = 1, track_no = 0, segment_no = 0, latitude = Some 90, longitude = Some 45,
         elevation = Some 6, time = Some 2, hr = None, cadence = Some 80\<rparr>]
   \<and> fit_points_data ([sample_without_position, sample_with_position] @ [sample_without_position])
       = fit_points_data [sample_without_position, sample_with_position]
   \<and> fit_points_data [sample_without_position, sample_with_invalid_altitude] =
       [\<lparr>point_no = 0, track_no = 0, segment_no = 0, latitude = Some 90, longitude = Some 45,
         elevation = Some 5, time = Some 1, hr = Some 90, cadence = Some 80\<rparr>,
        \<lparr>point_no = 1, track_no = 0, segment_no = 0, latitude = Some 90, longitude = Some 45,
         elevation = None, time = Some 2, hr = None, cadence = Some 80\<rparr>]
   \<and> parse_frame fit_init OtherFrame = fit_init"
proof -
  let ?s1 = "add_point fit_init None None (Some 5) (Some 1) (Some 90) None"
  let ?d0 = "\<lparr>point_no = 0, track_no = 0, segment_no = 0, latitude = None, longitude = None,
         elevation = Some 5, time = Some 1, hr = Some 90, cadence = None\<rparr>"
  let ?m1 = "\<lparr>timestamp = Present (Some 1), altitude = Present (Some 5),
       position_lat = Absent, position_long = Absent, heart_rate = Present (Some 90),
       fit_cadence = Absent\<rparr> :: data_message"
  let ?m2 = "\<lparr>timestamp = Present (Some 2), altitude = Present None,
       position_lat = Present (Some (2 ^ 30)), position_long = Present (Some (2 ^ 29)),
       heart_rate = Absent, fit_cadence = Present (Some 80)\<rparr> :: data_message"
  have a: "points_data ?s1 = [] \<and> backfill ?s1 = [?d0]" and c1: "point_counter ?s1 = 0"
    using fit_backfill [of None None fit_init "Some 5" "Some 1" "Some 90" None]
    by (simp_all add: fit_init_def point_data_def add_point_def get_point_no_def)
  have b: "points_data (add_point ?s1 (Some (2 ^ 30)) (Some (2 ^ 29)) (Some 6) (Some 2) None (Some 80)) =
       [\<lparr>point_no = 0, track_no = 0, segment_no = 0, latitude = Some 90, longitude = Some 45,
         elevation = Some 5, time = Some 1, hr = Some 90, cadence = Some 80\<rparr>,
        \<lparr>point_no = 1, track_no = 0, segment_no = 0, latitude = Some 90, longitude = Some 45,
         elevation = Some 6, time = Some 2, hr = None, cadence = Some 80\<rparr>]"
    using fit_backfill [of "Some (2 ^ 30)" "Some (2 ^ 29)" ?s1 "Some 6" "Some 2" None "Some 80"] a c1
    by (simp add: point_data_def fill_from_def fill_key_def LATLON_TO_DECIMAL_def)
  have c: "fit_points_data ([sample_without_position, sample_with_position] @ [sample_without_position])
       = fit_points_data [sample_without_position, sample_with_position]"
    using fit_backfill [where trailing = "[sample_without_position]"
        and frames = "[sample_without_position, sample_with_position]"]
    by (simp add: has_position_def has_field_def get_value_def sample_without_position_def)
  let ?t1 = "parse_frame fit_init (FitDataMessage ?m1)"
  have s1: "is_sample (FitDataMessage ?m1) \<and> \<not> has_position (FitDataMessage ?m1)"
    by (simp add: is_sample_def has_position_def has_field_def get_value_def)
  have t1: "points_data ?t1 = [] \<and> backfill ?t1 = [?d0]"
    using fit_backfill [where s = fit_init and m = ?m1] s1
    by (simp add: fit_init_def sample_data_def point_data_def get_value_def)
  have k1: "point_counter ?t1 = 0"
    using s1 by (simp add: parse_frame_def add_point_def get_point_no_def fit_init_def Let_def
        get_value_def has_position_def is_sample_def)
  have s2: "has_position (FitDataMessage ?m2)"
    by (simp add: has_position_def has_field_def get_value_def)
  have t2: "points_data (parse_frame ?t1 (FitDataMessage ?m2)) =
       [\<lparr>point_no = 0, track_no = 0, segment_no = 0, latitude = Some 90, longitude = Some 45,
         elevation = Some 5, time = Some 1, hr = Some 90, cadence = Some 80\<rparr>,
        \<lparr>point_no = 1, track_no = 0, segment_no = 0, latitude = Some 90, longitude = Some 45,
         elevation = None, time = Some 2, hr = None, cadence = Some 80\<rparr>]"
    using fit_backfill [where s = ?t1 and m = ?m2] s2 t1 k1
    by (simp add: sample_data_def point_data_def get_value_def fill_from_def fill_key_def
        LATLON_TO_DECIMAL_def)
  have d: "fit_points_data [sample_without_position, sample_with_invalid_altitude] =
       [\<lparr>point_no = 0, track_no = 0, segment_no = 0, latitude = Some 90, longitude = Some 45,
         elevation = Some 5, time = Some 1, hr = Some 90, cadence = Some 80\<rparr>,
        \<lparr>point_no = 1, track_no = 0, segment_no = 0, latitude = Some 90, longitude = Some 45,
         elevation = None, time = Some 2, hr = None, cadence = Some 80\<rparr>]"
    using t2
    by (simp add: fit_points_data_def sample_without_position_def sample_with_invalid_altitude_def)
  have e: "parse_frame fit_init OtherFrame = fit_init"
    using fit_backfill [where f = OtherFrame and s = fit_init] by (simp add: is_sample_def)
  show ?thesis using a b c d e by simp
qed

section \<open>Properties of the derived columns and of the activity type\<close>

lemma length_shift [simp]: "length (shift n f xs) = length xs"
  by (auto simp: shift_def Let_def)

lemma shift_nth_nonneg:
  "0 \<le> n \<Longrightarrow> i < length xs \<Longrightarrow> shift n f xs ! i = (if i < nat n then f else xs ! (i - nat n))"
  by (auto simp: shift_def Let_def nth_append min_def)

lemma length_cumsum_from [simp]: "length (cumsum_from acc xs) = length xs"
  by (induction xs arbitrary: acc) simp_all

lemma cumsum_from_lower:
  "\<forall>x \<in> set xs. 0 \<le> x \<Longrightarrow> y \<in> set (cumsum_from acc xs) \<Longrightarrow> acc \<le> y"
proof (induction xs arbitrary: acc)
  case Nil
  then show ?case by simp
next
  case (Cons x xs)
  then show ?case by fastforce
qed

lemma sorted_cumsum_from:
  "\<forall>x \<in> set xs. 0 \<le> x \<Longrightarrow> sorted (cumsum_from acc xs)"
proof (induction xs arbitrary: acc)
  case Nil
  then show ?case by simp
next
  case (Cons x xs)
  then show ?case using cumsum_from_lower [of xs _ "acc + x"] by auto
qed

lemma cumsum_from_Nil [simp]: "cumsum_from acc xs = [] \<longleftrightarrow> xs = []"
  by (cases xs) simp_all

lemma last_cumsum_from:
  "xs \<noteq> [] \<Longrightarrow> last (cumsum_from acc xs) = acc + sum_list xs"
proof (induction xs arbitrary: acc)
  case Nil
  then show ?case by simp
next
  case (Cons x xs)
  show ?case
  proof (cases "xs = []")
    case True
    then show ?thesis by simp
  next
    case False
    then show ?thesis using Cons.IH [of "acc + x"] by (simp add: add.assoc)
  qed
qed

lemma hd_cumsum_from:
  "xs \<noteq> [] \<Longrightarrow> hd (cumsum_from acc xs) = acc + hd xs"
  by (cases xs) simp_all

lemma length_step [simp]: "length (step_length_2d_column d df) = length df"
  by (simp add: step_length_2d_column_def Let_def)

lemma length_cumul [simp]: "length (cumul_distance_2d_column st) = length st"
  by (simp add: cumul_distance_2d_column_def cumsum_def)

lemma point_sel [simp]:
  "step_length_2d (raw_point.extend r (point.fields a b c d e f g)) = a"
  "cumul_distance_2d (raw_point.extend r (point.fields a b c d e f g)) = b"
  "km (raw_point.extend r (point.fields a b c d e f g)) = c"
  "mile (raw_point.extend r (point.fields a b c d e f g)) = d"
  "run_time (raw_point.extend r (point.fields a b c d e f g)) = e"
  "km_pace (raw_point.extend r (point.fields a b c d e f g)) = f"
  "mile_pace (raw_point.extend r (point.fields a b c d e f g)) = g"
  "time (raw_point.extend r (point.fields a b c d e f g)) = time r"
  "latitude (raw_point.extend r (point.fields a b c d e f g)) = latitude r"
  by (simp_all add: raw_point.defs point.defs)

lemma infer_empty: "infer_points_data d cfg [] = Inl IndexError"
  by (simp add: infer_points_data_def iloc_def Let_def)

lemma infer_Inr_iff: "(\<exists>out. infer_points_data d cfg df = Inr out) \<longleftrightarrow> df \<noteq> []"
  by (cases df) (simp_all add: infer_points_data_def iloc_def Let_def)

lemma infer_columns:
  assumes "infer_points_data d cfg df = Inr out"
  shows "length out = length df"
    and "map step_length_2d out = step_length_2d_column d df"
    and "map cumul_distance_2d out = cumul_distance_2d_column (step_length_2d_column d df)"
    and "map km out = map (\<lambda>c. \<lfloor>c / 1000\<rfloor>) (cumul_distance_2d_column (step_length_2d_column d df))"
    and "map mile out = map (\<lambda>c. \<lfloor>c / MILE\<rfloor>) (cumul_distance_2d_column (step_length_2d_column d df))"
proof -
  have ne: "df \<noteq> []" using assms infer_empty by auto
  then have i0: "iloc df 0 = Inr (df ! 0)" by (simp add: iloc_def)
  show "length out = length df"
    using assms i0 by (auto simp: infer_points_data_def Let_def)
  show "map step_length_2d out = step_length_2d_column d df"
    using assms i0 by (auto simp: infer_points_data_def Let_def intro!: nth_equalityI)
  show "map cumul_distance_2d out = cumul_distance_2d_column (step_length_2d_column d df)"
    using assms i0 by (auto simp: infer_points_data_def Let_def intro!: nth_equalityI)
  show "map km out = map (\<lambda>c. \<lfloor>c / 1000\<rfloor>) (cumul_distance_2d_column (step_length_2d_column d df))"
    using assms i0 by (auto simp: infer_points_data_def Let_def intro!: nth_equalityI)
  show "map mile out = map (\<lambda>c. \<lfloor>c / MILE\<rfloor>) (cumul_distance_2d_column (step_length_2d_column d df))"
    using assms i0 by (auto simp: infer_points_data_def Let_def intro!: nth_equalityI)
qed

lemma half_sums:
  fixes a b c d :: real
  assumes "a + c = 1" and "b + d = 1"
  shows "(a + b) / 2 + (c + d) / 2 = 1"
proof -
  have "(a + b) / 2 + (c + d) / 2 = ((a + c) + (b + d)) / 2" by (simp add: field_simps)
  then show ?thesis using assms by simp
qed

lemma haversine_term_bounds:
  fixes a1 a2 dl :: real
  defines "h \<equiv> (sin ((a2 - a1) / 2))\<^sup>2 + cos a1 * cos a2 * (sin (dl / 2))\<^sup>2"
  shows "0 \<le> h" and "h \<le> 1"
proof -
  let ?s1 = "sin a1" and ?s2 = "sin a2" and ?c1 = "cos a1" and ?c2 = "cos a2"
  let ?t = "cos dl"
  have half: "\<And>x::real. (sin (x / 2))\<^sup>2 = (1 - cos x) / 2"
  proof -
    fix x :: real
    have "cos (2 * (x / 2)) = 1 - 2 * (sin (x / 2))\<^sup>2" by (rule cos_double_sin)
    then show "(sin (x / 2))\<^sup>2 = (1 - cos x) / 2" by simp
  qed
  have cd: "cos (a2 - a1) = ?c2 * ?c1 + ?s2 * ?s1" by (rule cos_diff)
  have h: "h = (1 - (?s1 * ?s2 + ?c1 * ?c2 * ?t)) / 2"
    unfolding h_def half cd by (simp add: field_simps)
  have t: "\<bar>?t\<bar> \<le> 1" by simp
  have ss: "\<bar>?s1 * ?s2\<bar> \<le> (?s1\<^sup>2 + ?s2\<^sup>2) / 2"
    using sum_squares_bound [of "\<bar>?s1\<bar>" "\<bar>?s2\<bar>"] by (simp add: abs_mult)
  have cc: "\<bar>?c1 * ?c2\<bar> \<le> (?c1\<^sup>2 + ?c2\<^sup>2) / 2"
    using sum_squares_bound [of "\<bar>?c1\<bar>" "\<bar>?c2\<bar>"] by (simp add: abs_mult)
  have "\<bar>?c1 * ?c2 * ?t\<bar> = \<bar>?c1 * ?c2\<bar> * \<bar>?t\<bar>" by (simp add: abs_mult)
  also have "\<dots> \<le> \<bar>?c1 * ?c2\<bar> * 1" by (rule mult_left_mono) (use t in simp_all)
  finally have cct: "\<bar>?c1 * ?c2 * ?t\<bar> \<le> (?c1\<^sup>2 + ?c2\<^sup>2) / 2" using cc by simp
  have one: "(?s1\<^sup>2 + ?s2\<^sup>2) / 2 + (?c1\<^sup>2 + ?c2\<^sup>2) / 2 = 1"
    by (rule half_sums) (rule sin_cos_squared_add)+
  have "\<bar>?s1 * ?s2 + ?c1 * ?c2 * ?t\<bar> \<le> 1"
    using ss cct one by linarith
  then show "0 \<le> h" and "h \<le> 1" unfolding h by simp_all
qed

text \<open>
  The distance of the spec is never negative, on any four coordinates: the term under the
  root is a haversine, between 0 and 1.
\<close>

lemma haversine_distance_nonneg:
  "haversine_distance lat1 lon1 lat2 lon2 = Some x \<Longrightarrow> 0 \<le> x"
proof (cases "\<exists>a1 o1 a2 o2. lat1 = Some a1 \<and> lon1 = Some o1 \<and> lat2 = Some a2 \<and> lon2 = Some o2")
  case True
  then obtain a1 o1 a2 o2 where c: "lat1 = Some a1" "lon1 = Some o1" "lat2 = Some a2" "lon2 = Some o2"
    by blast
  assume x: "haversine_distance lat1 lon1 lat2 lon2 = Some x"
  let ?h = "(sin ((radians a2 - radians a1) / 2))\<^sup>2
            + cos (radians a1) * cos (radians a2) * (sin ((radians o2 - radians o1) / 2))\<^sup>2"
  have b: "0 \<le> ?h" "?h \<le> 1" by (rule haversine_term_bounds)+
  then have "0 \<le> sqrt ?h" "sqrt ?h \<le> 1" by simp_all
  then have "arcsin 0 \<le> arcsin (sqrt ?h)" by (intro arcsin_le_arcsin) simp_all
  then have "0 \<le> 2 * EARTH_RADIUS * arcsin (sqrt ?h)" by (simp add: EARTH_RADIUS_def)
  then show ?thesis using x c by (simp add: haversine_distance_def Let_def)
next
  case False
  assume x: "haversine_distance lat1 lon1 lat2 lon2 = Some x"
  then show ?thesis using False
    by (auto simp: haversine_distance_def split: option.splits)
qed

text \<open>The distance from a point to itself is 0 (spec 4.1).\<close>

lemma haversine_distance_same_point:
  "haversine_distance (Some a) (Some b) (Some a) (Some b) = Some 0"
  by (simp add: haversine_distance_def)

lemma MILE_pos: "0 < MILE"
  by (simp add: MILE_def)

lemma step_nonneg:
  assumes "\<forall>a b c e x. distance_2d a b c e = Some x \<longrightarrow> 0 \<le> x"
  shows "\<forall>x \<in> set (map fillna0 (step_length_2d_column distance_2d df)). 0 \<le> x"
  using assms by (auto simp: step_length_2d_column_def Let_def fillna0_def split: option.splits)

lemma sorted_cumul:
  assumes "\<forall>a b c e x. distance_2d a b c e = Some x \<longrightarrow> 0 \<le> x"
  shows "sorted (cumul_distance_2d_column (step_length_2d_column distance_2d df))"
  unfolding cumul_distance_2d_column_def cumsum_def
  by (rule sorted_cumsum_from) (rule step_nonneg [OF assms])

lemma sorted_floor_div:
  assumes "sorted (xs :: real list)" and "0 < u"
  shows "sorted (map (\<lambda>c. \<lfloor>c / u\<rfloor>) xs)"
proof -
  have "\<And>x y. x \<le> y \<Longrightarrow> \<lfloor>x / u\<rfloor> \<le> \<lfloor>y / u\<rfloor>"
    using assms(2) by (simp add: divide_right_mono floor_mono)
  then show ?thesis
    using assms(1) by (simp add: sorted_map sorted_wrt_mono_rel [of xs "(\<le>)"])
qed

text \<open>
  C5. For a distance that is never negative (it may be missing), the table returned by
  \<^verbatim>\<open>infer_points_data\<close> has a non-decreasing cumulative distance; the sum of the step
  lengths (pandas skips the missing ones, which is the sum after \<^verbatim>\<open>fillna(0)\<close>) is the
  last cumulative distance; \<^verbatim>\<open>km\<close> and \<^verbatim>\<open>mile\<close> are the floors of the cumulative
  distance over 1000 and over 1609.344; and both are non-decreasing.
\<close>

theorem infer_points_data_invariants:
  assumes nonneg: "\<forall>a b c e x. distance_2d a b c e = Some x \<longrightarrow> 0 \<le> x"
    and out: "infer_points_data distance_2d cfg df = Inr out"
  shows "sorted (map cumul_distance_2d out)
       \<and> sum_list (map (\<lambda>p. fillna0 (step_length_2d p)) out) = cumul_distance_2d (last out)
       \<and> (\<forall>p \<in> set out. km p = \<lfloor>cumul_distance_2d p / 1000\<rfloor>
                         \<and> mile p = \<lfloor>cumul_distance_2d p / MILE\<rfloor>)
       \<and> sorted (map km out) \<and> sorted (map mile out)"
proof -
  let ?step = "step_length_2d_column distance_2d df"
  let ?cumul = "cumul_distance_2d_column ?step"
  note cols = infer_columns [OF out]
  have ne: "df \<noteq> []" using out infer_empty by auto
  then have one: "out \<noteq> []" using cols(1) by auto
  have s1: "sorted (map cumul_distance_2d out)"
    using sorted_cumul [OF nonneg] cols(3) by simp
  have "map (\<lambda>p. fillna0 (step_length_2d p)) out = map fillna0 (map step_length_2d out)"
    by simp
  then have "sum_list (map (\<lambda>p. fillna0 (step_length_2d p)) out) = sum_list (map fillna0 ?step)"
    using cols(2) by simp
  also have "\<dots> = last ?cumul"
  proof -
    have "length (map fillna0 ?step) = length df" by simp
    then have "map fillna0 ?step \<noteq> []" using ne by (metis length_0_conv)
    then show ?thesis
      using last_cumsum_from [of "map fillna0 ?step" 0]
      by (simp add: cumul_distance_2d_column_def cumsum_def)
  qed
  also have "\<dots> = last (map cumul_distance_2d out)" using cols(3) by simp
  also have "\<dots> = cumul_distance_2d (last out)" using one by (simp add: last_map)
  finally have s2: "sum_list (map (\<lambda>p. fillna0 (step_length_2d p)) out) = cumul_distance_2d (last out)" .
  have kmnth: "\<And>i. i < length out \<Longrightarrow> km (out ! i) = \<lfloor>cumul_distance_2d (out ! i) / 1000\<rfloor>"
  proof -
    fix i assume i: "i < length out"
    have "km (out ! i) = map km out ! i" using i by simp
    also have "\<dots> = map (\<lambda>c. \<lfloor>c / 1000\<rfloor>) (map cumul_distance_2d out) ! i"
      using cols(3,4) by simp
    also have "\<dots> = \<lfloor>cumul_distance_2d (out ! i) / 1000\<rfloor>" using i by simp
    finally show "km (out ! i) = \<lfloor>cumul_distance_2d (out ! i) / 1000\<rfloor>" .
  qed
  have minth: "\<And>i. i < length out \<Longrightarrow> mile (out ! i) = \<lfloor>cumul_distance_2d (out ! i) / MILE\<rfloor>"
  proof -
    fix i assume i: "i < length out"
    have "mile (out ! i) = map mile out ! i" using i by simp
    also have "\<dots> = map (\<lambda>c. \<lfloor>c / MILE\<rfloor>) (map cumul_distance_2d out) ! i"
      using cols(3,5) by simp
    also have "\<dots> = \<lfloor>cumul_distance_2d (out ! i) / MILE\<rfloor>" using i by simp
    finally show "mile (out ! i) = \<lfloor>cumul_distance_2d (out ! i) / MILE\<rfloor>" .
  qed
  have s3: "\<forall>p \<in> set out. km p = \<lfloor>cumul_distance_2d p / 1000\<rfloor>
                         \<and> mile p = \<lfloor>cumul_distance_2d p / MILE\<rfloor>"
    using kmnth minth by (auto simp: in_set_conv_nth)
  have s4: "sorted (map km out)"
    using sorted_floor_div [OF sorted_cumul [OF nonneg], of 1000 df] cols(4) by simp
  have s5: "sorted (map mile out)"
    using sorted_floor_div [OF sorted_cumul [OF nonneg] MILE_pos, of df] cols(5) by simp
  show ?thesis using s1 s2 s3 s4 s5 by blast
qed

lemma flat_distance_nonneg: "\<forall>a b c e x. flat_distance a b c e = Some x \<longrightarrow> 0 \<le> x"
  by (auto simp: flat_distance_def split: option.splits)

lemma haversine_sentinel [simp]:
  "haversine_distance lat lon None None = Some 0"
  by (simp add: haversine_distance_def split: option.splits)

lemma step_first:
  "df \<noteq> [] \<Longrightarrow> step_length_2d_column d df ! 0 = d (latitude (df ! 0)) (longitude (df ! 0)) None None"
  by (cases df) (simp_all add: step_length_2d_column_def Let_def shift_def upt_rec)

lemma cumul_first:
  "st \<noteq> [] \<Longrightarrow> cumul_distance_2d_column st ! 0 = fillna0 (st ! 0)"
  by (cases st) (simp_all add: cumul_distance_2d_column_def cumsum_def)

text \<open>
  The two pace columns in general, for an interval \<open>N \<ge> 0\<close>: missing below index \<open>N\<close>;
  from there on the kilometre pace uses the distance of the interval, the mile pace the
  length of the last step.
\<close>

lemma infer_points_data_pace:
  assumes out: "infer_points_data d cfg df = Inr out"
    and N: "0 \<le> speed_measure_interval cfg"
    and i: "i < length df"
  shows "km_pace (out ! i) =
           (if i < nat (speed_measure_interval cfg) then None
            else nan_mul
                   (nan_div (Some 1000)
                      (Some (cumul_distance_2d (out ! i)
                             - cumul_distance_2d (out ! (i - nat (speed_measure_interval cfg))))))
                   (nan_sub (time (df ! i)) (time (df ! (i - nat (speed_measure_interval cfg))))))"
    and "mile_pace (out ! i) =
           (if i < nat (speed_measure_interval cfg) then None
            else nan_mul (nan_div (Some MILE) (step_length_2d (out ! i)))
                   (nan_sub (time (df ! i)) (time (df ! (i - nat (speed_measure_interval cfg))))))"
proof -
  let ?n = "speed_measure_interval cfg"
  let ?step = "step_length_2d_column d df"
  let ?cumul = "cumul_distance_2d_column ?step"
  let ?times = "map time df"
  let ?dt = "map2 nan_sub ?times (shift ?n None ?times)"
  let ?dist = "map2 nan_sub (map Some ?cumul) (shift ?n None (map Some ?cumul))"
  note cols = infer_columns [OF out]
  have ne: "df \<noteq> []" using i by auto
  then have i0: "iloc df 0 = Inr (df ! 0)" by (simp add: iloc_def)
  have k: "i - nat ?n < length df" using i by simp
  have io: "i < length out" using i cols(1) by simp
  have ko: "i - nat ?n < length out" using k cols(1) by simp
  have cu: "\<And>j. j < length out \<Longrightarrow> ?cumul ! j = cumul_distance_2d (out ! j)"
    using cols(3) by (metis nth_map)
  have st: "?step ! i = step_length_2d (out ! i)"
    using cols(2) io by (metis nth_map)
  have kp: "km_pace (out ! i) = nan_mul (nan_div (Some 1000) (?dist ! i)) (?dt ! i)"
    using out i0 i by (auto simp: infer_points_data_def Let_def)
  have mp: "mile_pace (out ! i) = nan_mul (nan_div (Some MILE) (?step ! i)) (?dt ! i)"
    using out i0 i by (auto simp: infer_points_data_def Let_def)
  have dt: "?dt ! i = (if i < nat ?n then None else nan_sub (time (df ! i)) (time (df ! (i - nat ?n))))"
    using i k N by (simp add: shift_nth_nonneg nan_sub_def split: option.splits)
  have dist: "?dist ! i = (if i < nat ?n then None
       else Some (cumul_distance_2d (out ! i) - cumul_distance_2d (out ! (i - nat ?n))))"
    using i k N cu [OF io] cu [OF ko] by (simp add: shift_nth_nonneg nan_sub_def)
  show "km_pace (out ! i) =
           (if i < nat ?n then None
            else nan_mul
                   (nan_div (Some 1000)
                      (Some (cumul_distance_2d (out ! i) - cumul_distance_2d (out ! (i - nat ?n)))))
                   (nan_sub (time (df ! i)) (time (df ! (i - nat ?n)))))"
    unfolding kp dt dist by (simp add: nan_mul_def nan_div_def)
  show "mile_pace (out ! i) =
           (if i < nat ?n then None
            else nan_mul (nan_div (Some MILE) (step_length_2d (out ! i)))
                   (nan_sub (time (df ! i)) (time (df ! (i - nat ?n)))))"
    unfolding mp dt st by (simp add: nan_mul_def split: option.splits)
qed

text \<open>
  C1. The claim: from index \<open>N\<close> on, both paces are the unit length over the distance
  covered in the last \<open>N\<close> steps, times the time these steps took. The kilometre pace is
  computed so; the mile pace divides by the length of the last step alone
  (\<^verbatim>\<open>df['step_length_2d']\<close>) while it multiplies by the time of \<open>N\<close> steps. With
  \<open>N = 2\<close>, cumulative distances 0, 100, 300 m and times 0, 10, 20 s, the mile pace of the
  third point is \<open>1609.344 / 200 * 20\<close>, not \<open>1609.344 / 300 * 20\<close>.
\<close>

theorem mile_pace_from_step_length:
  "\<exists>out. infer_points_data flat_distance \<lparr>speed_measure_interval = 2\<rparr>
            [raw_at 0 0, raw_at 100 10, raw_at 300 20] = Inr out
     \<and> map cumul_distance_2d out = [0, 100, 300]
     \<and> map km_pace out = [None, None, Some (1000 / (300 - 0) * (20 - 0))]
     \<and> map mile_pace out = [None, None, Some (MILE / (300 - 100) * (20 - 0))]
     \<and> mile_pace (out ! 2) \<noteq> Some (MILE / (300 - 0) * (20 - 0))"
  by (simp add: infer_points_data_def iloc_def Let_def step_length_2d_column_def
      cumul_distance_2d_column_def cumsum_def shift_def flat_distance_def raw_at_def nan_sub_def
      nan_mul_def nan_div_def fillna0_def MILE_def upt_rec)

text \<open>
  C8. The claim: an absent exporter gives \<^verbatim>\<open>'unknown'\<close>. For a file without a
  \<^verbatim>\<open>creator\<close> attribute whose first track has no type among run, walk and hike (here:
  no type at all), the code calls \<^verbatim>\<open>startswith\<close> on \<^verbatim>\<open>None\<close> and raises
  AttributeError.
\<close>

theorem activity_type_no_creator:
  "activity_type \<lparr>creator = None, tracks = [None]\<rparr> = Inl AttributeError"
  by (simp add: activity_type_def iloc_def startswith_def ACTIVITY_TYPES_def)

text \<open>When the file names its creator, the result is the one the claim describes.\<close>

lemma activity_type_with_creator:
  "activity_type \<lparr>creator = Some c, tracks = t # ts\<rparr> =
     Inr (if t \<in> Some ` ACTIVITY_TYPES then the t
          else if prefix ''StravaGPX'' c then dict_get STRAVA_TYPES t ''unknown''
          else if prefix ''Garmin Connect'' c then dict_get GARMIN_TYPES t ''unknown''
          else ''unknown'')"
  by (simp add: activity_type_def iloc_def startswith_def)

theorem infer_points_data_invariants_witness:
  "(\<exists>out. infer_points_data flat_distance \<lparr>speed_measure_interval = 1\<rparr>
            [raw_at 0 0, raw_at 900 10, raw_at 900 20, raw_at 2100 30] = Inr out
     \<and> map cumul_distance_2d out = [0, 900, 900, 2100]
     \<and> map km out = [0, 0, 0, 2]
     \<and> map mile out = [0, 0, 0, 1]
     \<and> sorted (map cumul_distance_2d out)
     \<and> sum_list (map (\<lambda>p. fillna0 (step_length_2d p)) out) = cumul_distance_2d (last out)
     \<and> km (last out) = \<lfloor>cumul_distance_2d (last out) / 1000\<rfloor>
     \<and> mile (last out) = \<lfloor>cumul_distance_2d (last out) / MILE\<rfloor>
     \<and> sorted (map km out) \<and> sorted (map mile out))
   \<and> (\<exists>out. infer_points_data haversine_distance \<lparr>speed_measure_interval = 1\<rparr>
            [raw_at 53.3 0, raw_at 53.4 10, raw_at 53.5 20] = Inr out
     \<and> sorted (map cumul_distance_2d out)
     \<and> sum_list (map (\<lambda>p. fillna0 (step_length_2d p)) out) = cumul_distance_2d (last out)
     \<and> sorted (map km out) \<and> sorted (map mile out))"
proof -
  let ?df = "[raw_at 0 0, raw_at 900 10, raw_at 900 20, raw_at 2100 30]"
  obtain out where out: "infer_points_data flat_distance \<lparr>speed_measure_interval = 1\<rparr> ?df = Inr out"
    using infer_Inr_iff [of flat_distance "\<lparr>speed_measure_interval = 1\<rparr>" ?df] by auto
  have vals: "map cumul_distance_2d out = [0, 900, 900, 2100]
        \<and> map km out = [0, 0, 0, 2] \<and> map mile out = [0, 0, 0, 1]"
    using out
    by (auto simp: infer_points_data_def iloc_def Let_def step_length_2d_column_def
      cumul_distance_2d_column_def cumsum_def shift_def flat_distance_def raw_at_def
      fillna0_def MILE_def upt_rec)
  then have "out \<noteq> []" by auto
  then have mem: "last out \<in> set out" by simp
  have flat: "\<exists>out. infer_points_data flat_distance \<lparr>speed_measure_interval = 1\<rparr> ?df = Inr out
     \<and> map cumul_distance_2d out = [0, 900, 900, 2100]
     \<and> map km out = [0, 0, 0, 2]
     \<and> map mile out = [0, 0, 0, 1]
     \<and> sorted (map cumul_distance_2d out)
     \<and> sum_list (map (\<lambda>p. fillna0 (step_length_2d p)) out) = cumul_distance_2d (last out)
     \<and> km (last out) = \<lfloor>cumul_distance_2d (last out) / 1000\<rfloor>
     \<and> mile (last out) = \<lfloor>cumul_distance_2d (last out) / MILE\<rfloor>
     \<and> sorted (map km out) \<and> sorted (map mile out)"
    using infer_points_data_invariants [OF flat_distance_nonneg out] out vals mem
    by (intro conjI exI [of _ out]) blast+
  let ?df2 = "[raw_at 53.3 0, raw_at 53.4 10, raw_at 53.5 20]"
  have hav: "\<forall>a b c e x. haversine_distance a b c e = Some x \<longrightarrow> 0 \<le> x"
    using haversine_distance_nonneg by blast
  obtain out2 where out2:
    "infer_points_data haversine_distance \<lparr>speed_measure_interval = 1\<rparr> ?df2 = Inr out2"
    using infer_Inr_iff [of haversine_distance "\<lparr>speed_measure_interval = 1\<rparr>" ?df2] by auto
  have sphere: "\<exists>out. infer_points_data haversine_distance \<lparr>speed_measure_interval = 1\<rparr> ?df2 = Inr out
     \<and> sorted (map cumul_distance_2d out)
     \<and> sum_list (map (\<lambda>p. fillna0 (step_length_2d p)) out) = cumul_distance_2d (last out)
     \<and> sorted (map km out) \<and> sorted (map mile out)"
    using infer_points_data_invariants [OF hav out2] out2
    by (intro conjI exI [of _ out2]) blast+
  show ?thesis using flat sphere by (rule conjI)
qed

section \<open>Properties of the outlier handling and of the split markers\<close>

lemma length_rolling_mean [simp]: "length (rolling_mean col) = length col"
  by (simp add: rolling_mean_def Let_def)

lemma length_zscore [simp]: "length (zscore col) = length col"
  by (simp add: zscore_def)

lemma shift_one_nth:
  "i < length xs \<Longrightarrow> shift 1 f xs ! i = (if i = 0 then f else xs ! (i - 1))"
  using shift_nth_nonneg [of 1 i xs f] by auto

lemma shift_minus_one_nth:
  "i < length xs \<Longrightarrow> shift (- 1) f xs ! i = (if Suc i = length xs then f else xs ! Suc i)"
  by (auto simp: shift_minus_one nth_append nth_tl)

lemma rolling_mean_nth:
  assumes "i < length col"
  shows "rolling_mean col ! i =
           nan_div (nan_add (if i = 0 then mean col else col ! (i - 1))
                            (if Suc i = length col then mean col else col ! Suc i)) (Some 2)"
  using assms by (simp add: rolling_mean_def Let_def shift_one_nth shift_minus_one_nth)

lemma km_pace_smoothed_nth:
  assumes "i < length col"
  shows "km_pace_smoothed col ! i =
           (if abs_lt_1 (zscore col ! i) then col ! i else rolling_mean col ! i)"
  using assms by (simp add: km_pace_smoothed_def where_col_def)

text \<open>
  C4. In the smoothed pace column, a value whose z-score (against the mean and the sample
  standard deviation of the whole column) has absolute value at least 1 is replaced by
  half the sum of its left and right neighbours in the original column, the column mean
  standing in for the neighbour that the first or the last row lacks; a value whose
  z-score has absolute value below 1 stays. Every replacement is a function of the
  original column only, so the pass is a single one.
\<close>

theorem outlier_correction:
  assumes "i < length col"
  shows "(\<forall>z. zscore col ! i = Some z \<and> 1 \<le> \<bar>z\<bar> \<longrightarrow>
            km_pace_smoothed col ! i =
              nan_div (nan_add (if i = 0 then mean col else col ! (i - 1))
                               (if Suc i = length col then mean col else col ! Suc i)) (Some 2))
       \<and> (\<forall>z. zscore col ! i = Some z \<and> \<bar>z\<bar> < 1 \<longrightarrow> km_pace_smoothed col ! i = col ! i)"
  using assms by (auto simp: km_pace_smoothed_nth rolling_mean_nth abs_lt_1_def)

lemma zscore_nth:
  "i < length col \<Longrightarrow> zscore col ! i = nan_div (nan_sub (col ! i) (mean col)) (std col)"
  by (simp add: zscore_def)

lemma ex_mean: "mean [None, Some 301, Some 301, Some 305, Some 301] = Some 302"
  by (simp add: mean_def present_def)

lemma ex_std: "std [None, Some 301, Some 301, Some 305, Some 301] = Some 2"
  by (simp add: std_def present_def)

theorem outlier_correction_witness:
  "zscore [None, Some 301, Some 301, Some 305, Some 301] ! 3 = Some (3 / 2)
   \<and> km_pace_smoothed [None, Some 301, Some 301, Some 305, Some 301] ! 3 = Some ((301 + 301) / 2)
   \<and> zscore [None, Some 301, Some 301, Some 305, Some 301] ! 4 = Some (- 1 / 2)
   \<and> km_pace_smoothed [None, Some 301, Some 301, Some 305, Some 301] ! 4 = Some 301
   \<and> zscore [Some 301, Some 301, Some 301, Some 305] ! 3 = Some (3 / 2)
   \<and> km_pace_smoothed [Some 301, Some 301, Some 301, Some 305] ! 3 = Some ((301 + 302) / 2)"
proof -
  let ?col = "[None, Some 301, Some 301, Some 305, Some 301]"
  let ?col2 = "[Some 301, Some 301, Some 301, Some 305]"
  have m2: "mean ?col2 = Some 302" by (simp add: mean_def present_def)
  have s2: "std ?col2 = Some 2" by (simp add: std_def present_def)
  have z3: "zscore ?col ! 3 = Some (3 / 2)"
    by (simp add: zscore_nth ex_mean ex_std nan_sub_def nan_div_def)
  have z4: "zscore ?col ! 4 = Some (- 1 / 2)"
    by (simp add: zscore_nth ex_mean ex_std nan_sub_def nan_div_def)
  have z23: "zscore ?col2 ! 3 = Some (3 / 2)"
    by (simp add: zscore_nth m2 s2 nan_sub_def nan_div_def)
  have a: "km_pace_smoothed ?col ! 3 = Some ((301 + 301) / 2)"
    using outlier_correction [of 3 ?col, THEN conjunct1, THEN spec, of "3 / 2"] z3
    by (simp add: nan_add_def nan_div_def)
  have b: "km_pace_smoothed ?col ! 4 = Some 301"
    using outlier_correction [of 4 ?col, THEN conjunct2, THEN spec, of "- 1 / 2"] z4 by simp
  have c: "km_pace_smoothed ?col2 ! 3 = Some ((301 + 302) / 2)"
    using outlier_correction [of 3 ?col2, THEN conjunct1, THEN spec, of "3 / 2"] z23 m2
    by (simp add: nan_add_def nan_div_def)
  show ?thesis using z3 z4 z23 a b c by simp
qed

lemma iloc_first: "iloc xs 0 = (if xs = [] then Inl IndexError else Inr (hd xs))"
  by (cases xs) (simp_all add: iloc_def)

lemma marker_sel [simp]:
  "ends (split_point.extend sp (marker.fields a b)) = a"
  "begins (split_point.extend sp (marker.fields a b)) = b"
  "sp_cumul_distance_2d (split_point.extend sp (marker.fields a b)) = sp_cumul_distance_2d sp"
  by (simp_all add: split_point.defs marker.defs)

lemma split_marker_cases:
  "split_marker df col L i =
     (if split_rows col (i - 1) df = [] \<or> split_rows col i df = [] then Inl IndexError
      else Inr (split_point.extend
                  (intersect_points (last (split_rows col (i - 1) df)) (hd (split_rows col i df))
                     (portion_of L i (last (split_rows col (i - 1) df)) (hd (split_rows col i df))))
                  (marker.fields (i - 1) i)))"
  by (simp add: split_marker_def iloc_last iloc_first)

lemma markers_loop_Inl: "markers_loop df col L is = Inl e \<Longrightarrow> e = IndexError"
proof (induction "is")
  case Nil
  then show ?case by simp
next
  case (Cons i rest)
  then show ?case
    by (auto simp: split_marker_cases split: if_splits sum.splits)
qed

lemma markers_loop_Inr_iff:
  "(\<exists>ms. markers_loop df col L is = Inr ms) \<longleftrightarrow>
     (\<forall>i \<in> set is. split_rows col (i - 1) df \<noteq> [] \<and> split_rows col i df \<noteq> [])"
proof (induction "is")
  case Nil
  then show ?case by simp
next
  case (Cons i rest)
  then show ?case
    by (auto simp: split_marker_cases split: if_splits sum.splits)
qed

lemma markers_loop_nth:
  "markers_loop df col L is = Inr ms \<Longrightarrow>
     length ms = length is \<and> (\<forall>k < length is. split_marker df col L (is ! k) = Inr (ms ! k))"
proof (induction "is" arbitrary: ms)
  case Nil
  then show ?case by simp
next
  case (Cons i rest)
  from Cons.prems obtain m ms' where m: "split_marker df col L i = Inr m"
    and r: "markers_loop df col L rest = Inr ms'" and ms: "ms = m # ms'"
    by (auto split: sum.splits)
  from Cons.IH [OF r] have ih: "length ms' = length rest"
    "\<forall>k < length rest. split_marker df col L (rest ! k) = Inr (ms' ! k)" by auto
  show ?case
    using m ih ms by (auto simp: nth_Cons split: nat.splits)
qed

lemma split_rows_nonempty_iff: "split_rows col v df \<noteq> [] \<longleftrightarrow> v \<in> set (map col df)"
  by (auto simp: split_rows_def filter_empty_conv)

lemma all_splits_iff:
  fixes col :: "point \<Rightarrow> int" and df :: "point list"
  assumes "df \<noteq> []"
  defines "lo \<equiv> Min (set (map col df))" and "hi \<equiv> Max (set (map col df))"
  shows "(\<forall>i \<in> set [lo + 1 .. hi]. split_rows col (i - 1) df \<noteq> [] \<and> split_rows col i df \<noteq> [])
     \<longleftrightarrow> (\<forall>b. lo < b \<and> b < hi \<longrightarrow> split_rows col b df \<noteq> [])"
proof -
  have fin: "finite (set (map col df))" and ne: "set (map col df) \<noteq> {}"
    using assms(1) by auto
  have lo: "split_rows col lo df \<noteq> []"
    unfolding lo_def split_rows_nonempty_iff using Min_in [OF fin ne] .
  have hi: "split_rows col hi df \<noteq> []"
    unfolding hi_def split_rows_nonempty_iff using Max_in [OF fin ne] .
  show ?thesis
  proof
    assume a: "\<forall>i \<in> set [lo + 1 .. hi]. split_rows col (i - 1) df \<noteq> [] \<and> split_rows col i df \<noteq> []"
    show "\<forall>b. lo < b \<and> b < hi \<longrightarrow> split_rows col b df \<noteq> []"
    proof (intro allI impI)
      fix b assume "lo < b \<and> b < hi"
      then have "b \<in> set [lo + 1 .. hi]" by simp
      then show "split_rows col b df \<noteq> []" using a by blast
    qed
  next
    assume a: "\<forall>b. lo < b \<and> b < hi \<longrightarrow> split_rows col b df \<noteq> []"
    show "\<forall>i \<in> set [lo + 1 .. hi]. split_rows col (i - 1) df \<noteq> [] \<and> split_rows col i df \<noteq> []"
    proof
      fix i assume "i \<in> set [lo + 1 .. hi]"
      then have i: "lo + 1 \<le> i" "i \<le> hi" by simp_all
      have "split_rows col (i - 1) df \<noteq> []"
      proof (cases "i - 1 = lo")
        case True
        then show ?thesis using lo by simp
      next
        case False
        then show ?thesis using a i by simp
      qed
      moreover have "split_rows col i df \<noteq> []"
      proof (cases "i = hi")
        case True
        then show ?thesis using hi by simp
      next
        case False
        then show ?thesis using a i by simp
      qed
      ultimately show "split_rows col (i - 1) df \<noteq> [] \<and> split_rows col i df \<noteq> []" ..
    qed
  qed
qed

lemma get_split_markers_unfold:
  assumes "split_col = ''km'' \<or> split_col = ''mile''" and "df \<noteq> []"
  shows "get_split_markers df split_col =
           markers_loop df (split_column split_col)
             (if split_col = ''km'' then 1000 else MILE)
             [Min (set (map (split_column split_col) df)) + 1 ..
              Max (set (map (split_column split_col) df))]"
  using assms by (auto simp: get_split_markers_def Let_def)

text \<open>
  C10 as amended. For a non-empty table and the column \<^verbatim>\<open>km\<close> or \<^verbatim>\<open>mile\<close>:
  \<^verbatim>\<open>get_split_markers\<close> fails with IndexError exactly when some split number strictly
  between the least and the greatest of the column has no row, and returns markers exactly
  when every such split has a row. The lookup that fails is that of the first row of the
  least empty split \<open>b\<close> (\<^verbatim>\<open>p2\<close>, with \<open>i = b\<close>): every pass before it succeeds, and in
  this pass the last row of split \<open>b - 1\<close> (\<^verbatim>\<open>p1\<close>) is found.
\<close>

theorem get_split_markers_first_of_empty_split:
  assumes "split_col = ''km'' \<or> split_col = ''mile''" and "df \<noteq> []"
  shows "((\<exists>b. Min (set (map (split_column split_col) df)) < b
              \<and> b < Max (set (map (split_column split_col) df))
              \<and> split_rows (split_column split_col) b df = [])
          \<longleftrightarrow> get_split_markers df split_col = Inl IndexError)
       \<and> ((\<forall>b. Min (set (map (split_column split_col) df)) < b
              \<and> b < Max (set (map (split_column split_col) df))
              \<longrightarrow> split_rows (split_column split_col) b df \<noteq> [])
          \<longleftrightarrow> (\<exists>ms. get_split_markers df split_col = Inr ms))
       \<and> (\<forall>b. Min (set (map (split_column split_col) df)) < b
              \<and> b < Max (set (map (split_column split_col) df))
              \<and> split_rows (split_column split_col) b df = []
              \<and> (\<forall>c. Min (set (map (split_column split_col) df)) < c \<and> c < b
                     \<longrightarrow> split_rows (split_column split_col) c df \<noteq> [])
            \<longrightarrow> (\<forall>i. Min (set (map (split_column split_col) df)) < i \<and> i < b
                     \<longrightarrow> (\<exists>m. split_marker df (split_column split_col)
                                  (if split_col = ''km'' then 1000 else MILE) i = Inr m))
               \<and> (\<exists>p1. iloc (split_rows (split_column split_col) (b - 1) df) (- 1) = Inr p1)
               \<and> iloc (split_rows (split_column split_col) b df) 0 = Inl IndexError)"
proof -
  let ?col = "split_column split_col"
  let ?L = "if split_col = ''km'' then 1000 else MILE"
  let ?lo = "Min (set (map ?col df))" and ?hi = "Max (set (map ?col df))"
  let ?is = "[?lo + 1 .. ?hi]"
  have u: "get_split_markers df split_col = markers_loop df ?col ?L ?is"
    by (rule get_split_markers_unfold [OF assms])
  have ok: "(\<forall>b. ?lo < b \<and> b < ?hi \<longrightarrow> split_rows ?col b df \<noteq> [])
          \<longleftrightarrow> (\<exists>ms. get_split_markers df split_col = Inr ms)"
    unfolding u markers_loop_Inr_iff using all_splits_iff [OF assms(2), of ?col] by simp
  have "get_split_markers df split_col = Inl IndexError \<longleftrightarrow>
          \<not> (\<exists>ms. get_split_markers df split_col = Inr ms)"
  proof (cases "get_split_markers df split_col")
    case (Inl e)
    then have "e = IndexError" using u markers_loop_Inl by metis
    then show ?thesis using Inl by simp
  next
    case (Inr ms)
    then show ?thesis by simp
  qed
  then have err: "(\<exists>b. ?lo < b \<and> b < ?hi \<and> split_rows ?col b df = [])
          \<longleftrightarrow> get_split_markers df split_col = Inl IndexError"
    using ok by blast
  have lo: "split_rows ?col ?lo df \<noteq> []"
    unfolding split_rows_nonempty_iff using assms(2) by (intro Min_in) auto
  have place: "\<forall>b. ?lo < b \<and> b < ?hi \<and> split_rows ?col b df = []
              \<and> (\<forall>c. ?lo < c \<and> c < b \<longrightarrow> split_rows ?col c df \<noteq> [])
            \<longrightarrow> (\<forall>i. ?lo < i \<and> i < b \<longrightarrow> (\<exists>m. split_marker df ?col ?L i = Inr m))
               \<and> (\<exists>p1. iloc (split_rows ?col (b - 1) df) (- 1) = Inr p1)
               \<and> iloc (split_rows ?col b df) 0 = Inl IndexError"
  proof (intro allI impI)
    fix b
    assume b: "?lo < b \<and> b < ?hi \<and> split_rows ?col b df = []
              \<and> (\<forall>c. ?lo < c \<and> c < b \<longrightarrow> split_rows ?col c df \<noteq> [])"
    have below: "\<And>c. ?lo \<le> c \<Longrightarrow> c < b \<Longrightarrow> split_rows ?col c df \<noteq> []"
    proof -
      fix c assume c: "?lo \<le> c" "c < b"
      show "split_rows ?col c df \<noteq> []"
      proof (cases "c = ?lo")
        case True
        then show ?thesis using lo by simp
      next
        case False
        then show ?thesis using b c by simp
      qed
    qed
    have before: "\<forall>i. ?lo < i \<and> i < b \<longrightarrow> (\<exists>m. split_marker df ?col ?L i = Inr m)"
    proof (intro allI impI)
      fix i assume i: "?lo < i \<and> i < b"
      have "split_rows ?col (i - 1) df \<noteq> []" using below [of "i - 1"] i by simp
      moreover have "split_rows ?col i df \<noteq> []" using below [of i] i by simp
      ultimately show "\<exists>m. split_marker df ?col ?L i = Inr m"
        by (simp add: split_marker_cases)
    qed
    have "split_rows ?col (b - 1) df \<noteq> []" using below [of "b - 1"] b by simp
    then have p1: "\<exists>p1. iloc (split_rows ?col (b - 1) df) (- 1) = Inr p1"
      by (simp add: iloc_last)
    have p2: "iloc (split_rows ?col b df) 0 = Inl IndexError"
      using b by (simp add: iloc_first)
    show "(\<forall>i. ?lo < i \<and> i < b \<longrightarrow> (\<exists>m. split_marker df ?col ?L i = Inr m))
               \<and> (\<exists>p1. iloc (split_rows ?col (b - 1) df) (- 1) = Inr p1)
               \<and> iloc (split_rows ?col b df) 0 = Inl IndexError"
      using before p1 p2 by blast
  qed
  show ?thesis using err ok place by blast
qed

lemma floor_split_bounds:
  fixes c L :: real
  assumes "0 < L" and "\<lfloor>c / L\<rfloor> = v"
  shows "L * real_of_int v \<le> c" and "c < L * real_of_int (v + 1)"
proof -
  have "real_of_int v \<le> c / L" using assms(2) by linarith
  then show "L * real_of_int v \<le> c"
    using assms(1) by (simp add: pos_le_divide_eq mult.commute)
  have "c / L < real_of_int (v + 1)" using assms(2) by linarith
  then show "c < L * real_of_int (v + 1)"
    using assms(1) by (simp add: pos_divide_less_eq mult.commute)
qed

lemma portion_crossing:
  fixes L :: real
  assumes under: "cumul_distance_2d p1 < L * real_of_int i"
    and over: "L * real_of_int i \<le> cumul_distance_2d p2"
  shows "underrun L i p1 + overrun L i p2 \<noteq> 0"
    and "\<exists>q. portion_of L i p1 p2 = Some q \<and> 0 \<le> q \<and> q \<le> 1"
    and "sp_cumul_distance_2d (intersect_points p1 p2 (portion_of L i p1 p2)) =
           Some (L * real_of_int i)"
proof -
  let ?u = "underrun L i p1" and ?o = "overrun L i p2"
  have u: "0 < ?u" using under by (simp add: underrun_def)
  have o: "0 \<le> ?o" using over by (simp add: overrun_def)
  show nz: "?u + ?o \<noteq> 0" using u o by linarith
  have p: "portion_of L i p1 p2 = Some (?u / (?u + ?o))"
    using nz by (simp add: portion_of_def nan_div_def)
  have "0 \<le> ?u / (?u + ?o)" using u o by simp
  moreover have "?u / (?u + ?o) \<le> 1" using u o by (simp add: divide_le_eq_1)
  ultimately show "\<exists>q. portion_of L i p1 p2 = Some q \<and> 0 \<le> q \<and> q \<le> 1"
    using p by blast
  have d: "cumul_distance_2d p2 - cumul_distance_2d p1 = ?u + ?o"
    by (simp add: underrun_def overrun_def)
  have "cumul_distance_2d p1 + ?u / (?u + ?o) * (cumul_distance_2d p2 - cumul_distance_2d p1)
          = cumul_distance_2d p1 + ?u"
    unfolding d using nz by simp
  also have "\<dots> = L * real_of_int i" by (simp add: underrun_def)
  finally show "sp_cumul_distance_2d (intersect_points p1 p2 (portion_of L i p1 p2)) =
           Some (L * real_of_int i)"
    unfolding p by (simp add: intersect_points_def interpolate_def nan_add_def nan_mul_def nan_sub_def)
qed

text \<open>
  C6. Let the split column be the floor of the cumulative distance over the split
  length, and let \<^verbatim>\<open>get_split_markers\<close> return markers. For the \<open>k\<close>-th marker, of split
  \<open>i\<close>, with \<open>p1\<close> the last row of split \<open>i - 1\<close> and \<open>p2\<close> the first row of split
  \<open>i\<close>: \<open>underrun + overrun\<close> is not zero, \<open>portion\<close> is a number between 0 and 1, the
  marker ends \<open>i - 1\<close> and begins \<open>i\<close>, and its interpolated cumulative distance is
  \<open>begins\<close> times the split length.
\<close>

theorem split_marker_portion:
  fixes df :: "point list" and split_col :: string and ms :: "marker list" and k :: nat
  defines "L \<equiv> (if split_col = ''km'' then 1000 else MILE)"
  defines "i \<equiv> Min (set (map (split_column split_col) df)) + 1 + int k"
  defines "p1 \<equiv> last (split_rows (split_column split_col) (i - 1) df)"
  defines "p2 \<equiv> hd (split_rows (split_column split_col) i df)"
  assumes floors: "\<forall>p \<in> set df. split_column split_col p = \<lfloor>cumul_distance_2d p / L\<rfloor>"
    and ms: "get_split_markers df split_col = Inr ms"
    and k: "k < length ms"
  shows "underrun L i p1 + overrun L i p2 \<noteq> 0
       \<and> (\<exists>q. portion_of L i p1 p2 = Some q \<and> 0 \<le> q \<and> q \<le> 1)
       \<and> ends (ms ! k) = i - 1 \<and> begins (ms ! k) = i
       \<and> sp_cumul_distance_2d (ms ! k) = Some (L * real_of_int (begins (ms ! k)))"
proof -
  let ?col = "split_column split_col"
  let ?lo = "Min (set (map ?col df))" and ?hi = "Max (set (map ?col df))"
  have sc: "split_col = ''km'' \<or> split_col = ''mile''"
    using ms by (auto simp: get_split_markers_def split: if_splits)
  have ne: "df \<noteq> []"
    using ms sc by (auto simp: get_split_markers_def split: if_splits)
  have Lpos: "0 < L" by (simp add: L_def MILE_pos)
  have u: "markers_loop df ?col L [?lo + 1 .. ?hi] = Inr ms"
    using get_split_markers_unfold [OF sc ne] ms by (simp add: L_def)
  from markers_loop_nth [OF u] have len: "length ms = length [?lo + 1 .. ?hi]"
    and nth: "\<forall>j < length [?lo + 1 .. ?hi]. split_marker df ?col L ([?lo + 1 .. ?hi] ! j) = Inr (ms ! j)"
    by auto
  have kk: "k < length [?lo + 1 .. ?hi]" using k len by simp
  then have "?lo + 1 + int k \<le> ?hi" by simp
  then have "[?lo + 1 .. ?hi] ! k = i" by (simp add: nth_upto i_def)
  then have sm: "split_marker df ?col L i = Inr (ms ! k)" using nth kk by auto
  then have r1: "split_rows ?col (i - 1) df \<noteq> []" and r2: "split_rows ?col i df \<noteq> []"
    and mk: "ms ! k = split_point.extend (intersect_points p1 p2 (portion_of L i p1 p2))
                      (marker.fields (i - 1) i)"
    by (auto simp: split_marker_cases p1_def p2_def split: if_splits)
  have "p1 \<in> set (split_rows ?col (i - 1) df)" using r1 by (simp add: p1_def)
  then have p1: "p1 \<in> set df" "?col p1 = i - 1" by (simp_all add: split_rows_def)
  have "p2 \<in> set (split_rows ?col i df)" using r2 by (simp add: p2_def)
  then have p2: "p2 \<in> set df" "?col p2 = i" by (simp_all add: split_rows_def)
  have f1: "\<lfloor>cumul_distance_2d p1 / L\<rfloor> = i - 1" using floors p1 by auto
  have f2: "\<lfloor>cumul_distance_2d p2 / L\<rfloor> = i" using floors p2 by auto
  have under: "cumul_distance_2d p1 < L * real_of_int i"
    using floor_split_bounds(2) [OF Lpos f1] by simp
  have over: "L * real_of_int i \<le> cumul_distance_2d p2"
    using floor_split_bounds(1) [OF Lpos f2] .
  note pc = portion_crossing [OF under over]
  show ?thesis using pc mk by simp
qed


lemma km_track2400: "map (split_column ''km'') track2400 = [0, 0, 1, 1, 2]"
  by (simp add: track2400_def point_on_track_def split_column_def)

lemma km_jump_track: "map (split_column ''km'') jump_track = [0, 0, 2]"
  by (simp add: jump_track_def point_on_track_def split_column_def)

lemma between_0_2: "(0::int) < b \<Longrightarrow> b < 2 \<Longrightarrow> b = 1"
  by arith

text \<open>
  C10 as stated has the failure at the selection of the last row of the empty split. On
  the track with kilometres 0, 0, 2 the first pass of the loop (\<open>i = 1\<close>) finds the last
  row of split 0 and fails at the first row of the empty split 1; the pass that would ask for
  the last row of split 1 is never reached.
\<close>

theorem empty_split_fails_at_its_first_row:
  "iloc (split_rows (split_column ''km'') 0 jump_track) (- 1) = Inr (point_on_track 900 90)
   \<and> iloc (split_rows (split_column ''km'') 1 jump_track) 0 = Inl IndexError
   \<and> split_marker jump_track (split_column ''km'') 1000 1 = Inl IndexError
   \<and> get_split_markers jump_track ''km'' = Inl IndexError"
proof -
  have r0: "split_rows (split_column ''km'') 0 jump_track = [point_on_track 0 0, point_on_track 900 90]"
    by (simp add: split_rows_def jump_track_def point_on_track_def split_column_def)
  have r1: "split_rows (split_column ''km'') 1 jump_track = []"
    by (simp add: split_rows_def jump_track_def point_on_track_def split_column_def)
  have p1: "iloc (split_rows (split_column ''km'') 0 jump_track) (- 1) = Inr (point_on_track 900 90)"
    unfolding r0 by (simp add: iloc_last)
  have p2: "iloc (split_rows (split_column ''km'') 1 jump_track) 0 = Inl IndexError"
    unfolding r1 by (simp add: iloc_first)
  have m: "split_marker jump_track (split_column ''km'') 1000 1 = Inl IndexError"
    by (simp add: split_marker_cases r1)
  have ne: "jump_track \<noteq> []" by (simp add: jump_track_def)
  have "get_split_markers jump_track ''km'' =
          markers_loop jump_track (split_column ''km'') 1000 [1 .. 2]"
    using get_split_markers_unfold [of "''km''" jump_track] ne by (simp add: km_jump_track)
  then have g: "get_split_markers jump_track ''km'' = Inl IndexError"
    using m by (simp add: upto_rec1)
  show ?thesis using p1 p2 m g by simp
qed

theorem get_split_markers_first_of_empty_split_witness:
  "get_split_markers jump_track ''km'' = Inl IndexError
   \<and> (\<exists>p1. iloc (split_rows (split_column ''km'') 0 jump_track) (- 1) = Inr p1)
   \<and> iloc (split_rows (split_column ''km'') 1 jump_track) 0 = Inl IndexError
   \<and> (\<exists>ms. get_split_markers track2400 ''km'' = Inr ms)"
proof -
  have ne1: "jump_track \<noteq> []" by (simp add: jump_track_def)
  have ne2: "track2400 \<noteq> []" by (simp add: track2400_def)
  have e1: "split_rows (split_column ''km'') 1 jump_track = []"
    by (simp add: split_rows_def jump_track_def point_on_track_def split_column_def)
  have gap: "\<exists>b. Min (set (map (split_column ''km'') jump_track)) < b
              \<and> b < Max (set (map (split_column ''km'') jump_track))
              \<and> split_rows (split_column ''km'') b jump_track = []"
    unfolding km_jump_track by (rule exI [of _ 1]) (simp add: e1)
  have least: "Min (set (map (split_column ''km'') jump_track)) < 1
              \<and> 1 < Max (set (map (split_column ''km'') jump_track))
              \<and> split_rows (split_column ''km'') 1 jump_track = []
              \<and> (\<forall>c. Min (set (map (split_column ''km'') jump_track)) < c \<and> c < 1
                     \<longrightarrow> split_rows (split_column ''km'') c jump_track \<noteq> [])"
    unfolding km_jump_track using e1 by auto
  have full: "\<forall>b. Min (set (map (split_column ''km'') track2400)) < b
              \<and> b < Max (set (map (split_column ''km'') track2400))
              \<longrightarrow> split_rows (split_column ''km'') b track2400 \<noteq> []"
    unfolding km_track2400
    by (auto dest!: between_0_2 simp: split_rows_def track2400_def point_on_track_def split_column_def)
  note t1 = get_split_markers_first_of_empty_split [of "''km''" jump_track]
  note t2 = get_split_markers_first_of_empty_split [of "''km''" track2400]
  have a: "get_split_markers jump_track ''km'' = Inl IndexError"
    using t1 ne1 gap by blast
  have b: "(\<exists>p1. iloc (split_rows (split_column ''km'') (1 - 1) jump_track) (- 1) = Inr p1)
   \<and> iloc (split_rows (split_column ''km'') 1 jump_track) 0 = Inl IndexError"
    using t1 ne1 least by blast
  have c: "\<exists>ms. get_split_markers track2400 ''km'' = Inr ms"
    using t2 ne2 full by blast
  show ?thesis using a b c by simp
qed

lemma markers_track2400:
  "\<exists>ms. get_split_markers track2400 ''km'' = Inr ms \<and> length ms = 2"
proof -
  have ne: "track2400 \<noteq> []" by (simp add: track2400_def)
  have u: "get_split_markers track2400 ''km'' =
             markers_loop track2400 (split_column ''km'') 1000 [1 .. 2]"
    using get_split_markers_unfold [of "''km''" track2400] ne by (simp add: km_track2400)
  have "\<forall>i \<in> set [1 .. 2 :: int]. split_rows (split_column ''km'') (i - 1) track2400 \<noteq> []
          \<and> split_rows (split_column ''km'') i track2400 \<noteq> []"
    by (auto simp: split_rows_nonempty_iff km_track2400)
  then obtain ms where ms: "markers_loop track2400 (split_column ''km'') 1000 [1 .. 2] = Inr ms"
    using markers_loop_Inr_iff [of track2400 "split_column ''km''" 1000 "[1 .. 2]"] by blast
  have "length ms = 2" using markers_loop_nth [OF ms] by simp
  then show ?thesis using u ms by simp
qed

theorem split_marker_portion_witness:
  "\<exists>ms. get_split_markers track2400 ''km'' = Inr ms
     \<and> underrun 1000 1 (point_on_track 600 60) + overrun 1000 1 (point_on_track 1200 120) = 600
     \<and> portion_of 1000 1 (point_on_track 600 60) (point_on_track 1200 120) = Some (2 / 3)
     \<and> ends (ms ! 0) = 0 \<and> begins (ms ! 0) = 1
     \<and> sp_cumul_distance_2d (ms ! 0) = Some 1000"
proof -
  obtain ms where ms: "get_split_markers track2400 ''km'' = Inr ms" and len: "length ms = 2"
    using markers_track2400 by blast
  have floors: "\<forall>p \<in> set track2400.
      split_column ''km'' p = \<lfloor>cumul_distance_2d p / (if ''km'' = ''km'' then 1000 else MILE)\<rfloor>"
    by (simp add: track2400_def point_on_track_def split_column_def)
  have p1: "last (split_rows (split_column ''km'') 0 track2400) = point_on_track 600 60"
    by (simp add: split_rows_def track2400_def point_on_track_def split_column_def)
  have p2: "hd (split_rows (split_column ''km'') 1 track2400) = point_on_track 1200 120"
    by (simp add: split_rows_def track2400_def point_on_track_def split_column_def)
  have k: "0 < length ms" using len by simp
  have vals: "underrun 1000 1 (point_on_track 600 60) + overrun 1000 1 (point_on_track 1200 120) = 600
     \<and> portion_of 1000 1 (point_on_track 600 60) (point_on_track 1200 120) = Some (2 / 3)"
    by (simp add: underrun_def overrun_def portion_of_def nan_div_def point_on_track_def)
  show ?thesis
    using split_marker_portion [OF floors ms k] ms vals
    by (intro exI [of _ ms]) (simp add: km_track2400 p1 p2)
qed

text \<open>
  The hypothesis of the theorem on the markers holds of every table that
  \<^verbatim>\<open>infer_points_data\<close> returns, whatever the distance.
\<close>

lemma infer_points_data_floors:
  assumes "infer_points_data d cfg df = Inr out" and "split_col = ''km'' \<or> split_col = ''mile''"
  shows "\<forall>p \<in> set out. split_column split_col p =
           \<lfloor>cumul_distance_2d p / (if split_col = ''km'' then 1000 else MILE)\<rfloor>"
proof
  fix p assume "p \<in> set out"
  then obtain j where j: "j < length out" and p: "p = out ! j"
    by (auto simp: in_set_conv_nth)
  note cols = infer_columns [OF assms(1)]
  have c: "cumul_distance_2d_column (step_length_2d_column d df) ! j = cumul_distance_2d p"
    using cols(3) j p by (metis nth_map)
  have jl: "j < length (cumul_distance_2d_column (step_length_2d_column d df))"
    using j cols(1) by simp
  have "km p = map km out ! j" using j p by simp
  then have k: "km p = \<lfloor>cumul_distance_2d p / 1000\<rfloor>"
    using cols(4) jl c by simp
  have "mile p = map mile out ! j" using j p by simp
  then have m: "mile p = \<lfloor>cumul_distance_2d p / MILE\<rfloor>"
    using cols(5) jl c by simp
  show "split_column split_col p =
           \<lfloor>cumul_distance_2d p / (if split_col = ''km'' then 1000 else MILE)\<rfloor>"
    using assms(2) k m by (auto simp: split_column_def)
qed

text \<open>
  A value without a z-score (a missing pace, or a column with fewer than two present
  values or with standard deviation 0) is replaced as well: the comparison
  \<^verbatim>\<open>np.abs(zscore) < 1\<close> is false for it.
\<close>

lemma outlier_missing_zscore:
  assumes "i < length col" and "zscore col ! i = None"
  shows "km_pace_smoothed col ! i = rolling_mean col ! i"
  using assms by (simp add: km_pace_smoothed_nth abs_lt_1_def)

text \<open>
  In the older module the pace of the first row is always missing (there is no previous
  time), so the first row has no z-score and takes the rolling mean.
\<close>

lemma parsers_km_pace_first:
  assumes "df \<noteq> []"
  shows "parsers_km_pace d df ! 0 = None"
proof -
  obtain p ps where df: "df = p # ps" using assms by (cases df) auto
  show ?thesis
    unfolding df
    by (simp add: parsers_km_pace_def Let_def shift_def step_length_2d_column_def
        nan_sub_def nan_mul_def upt_rec split: option.splits)
qed


section \<open>The first returned point\<close>

lemma abs_sin_small:
  fixes x :: real
  assumes "\<bar>x\<bar> \<le> pi / 2"
  shows "\<bar>sin x\<bar> = sin \<bar>x\<bar>"
proof (cases "0 \<le> x")
  case True
  then have "0 \<le> sin x" using assms by (intro sin_ge_zero) auto
  then show ?thesis using True by simp
next
  case False
  then have "0 \<le> sin (- x)" using assms by (intro sin_ge_zero) auto
  then show ?thesis using False by simp
qed

text \<open>
  Along a meridian the distance of the spec is the radius times the difference of the
  latitudes in radians.
\<close>

lemma haversine_meridian:
  assumes "\<bar>a2 - a1\<bar> \<le> 180"
  shows "haversine_distance (Some a1) (Some lon) (Some a2) (Some lon) =
           Some (EARTH_RADIUS * radians \<bar>a2 - a1\<bar>)"
proof -
  let ?x = "(radians a2 - radians a1) / 2"
  have x: "\<bar>?x\<bar> = radians \<bar>a2 - a1\<bar> / 2"
    by (simp add: radians_def abs_mult diff_divide_distrib [symmetric] left_diff_distrib [symmetric]
        del: times_divide_eq_left)
  have "radians \<bar>a2 - a1\<bar> \<le> pi" 
    using assms by (simp add: radians_def)
  then have small: "\<bar>?x\<bar> \<le> pi / 2" unfolding x by simp
  have "sqrt ((sin ?x)\<^sup>2) = sin \<bar>?x\<bar>"
    using abs_sin_small [OF small] by simp
  moreover have "arcsin (sin \<bar>?x\<bar>) = \<bar>?x\<bar>"
    using small by (intro arcsin_sin) auto
  ultimately have "2 * EARTH_RADIUS * arcsin (sqrt ((sin ?x)\<^sup>2)) = EARTH_RADIUS * radians \<bar>a2 - a1\<bar>"
    unfolding x by simp
  then show ?thesis
    by (simp add: haversine_distance_def Let_def)
qed

lemma point_sel_raw [simp]:
  "point_no (raw_point.extend r (point.fields a b c d e f g)) = point_no r"
  by (simp add: raw_point.defs point.defs)

lemma step_nth:
  assumes "j < length df"
  shows "step_length_2d_column d df ! j =
           d (latitude (df ! j)) (longitude (df ! j))
             (if j = 0 then None else latitude (df ! (j - 1)))
             (if j = 0 then None else longitude (df ! (j - 1)))"
  using assms by (simp add: step_length_2d_column_def Let_def shift_one_nth)

text \<open>
  The older function never returns the first input row: at line 49 its \<^verbatim>\<open>prev_lat\<close> is
  missing. Every row it returns is an input row with a predecessor.
\<close>

lemma parsers_rows:
  assumes "parsers_infer_points_data d df = Inr out"
  shows "out \<noteq> []"
    and "\<forall>p \<in> set out. \<exists>j. 0 < j \<and> j < length df
            \<and> point_no p = point_no (df ! j) \<and> time p = time (df ! j)
            \<and> step_length_2d p = d (latitude (df ! j)) (longitude (df ! j))
                                    (latitude (df ! (j - 1))) (longitude (df ! (j - 1)))
            \<and> cumul_distance_2d p = cumul_distance_2d_column (step_length_2d_column d df) ! j"
proof -
  let ?prev_lat = "shift 1 None (map latitude df)"
  let ?prev_lon = "shift 1 None (map longitude df)"
  let ?step = "step_length_2d_column d df"
  let ?prev_time = "shift 1 None (map time df)"
  let ?km = "km_pace_smoothed (parsers_km_pace d df)"
  let ?kept = "filter (\<lambda>i. latitude (df ! i) \<noteq> None \<and> longitude (df ! i) \<noteq> None
                              \<and> elevation (df ! i) \<noteq> None \<and> time (df ! i) \<noteq> None
                              \<and> hr (df ! i) \<noteq> None \<and> cadence (df ! i) \<noteq> None
                              \<and> ?prev_lat ! i \<noteq> None \<and> ?prev_lon ! i \<noteq> None
                              \<and> ?step ! i \<noteq> None \<and> ?prev_time ! i \<noteq> None
                              \<and> ?km ! i \<noteq> None) [0..<length df]"
  have ne: "?kept \<noteq> []"
    using assms by (auto simp: parsers_infer_points_data_def Let_def iloc_first split: if_splits)
  have kept: "\<And>j. j \<in> set ?kept \<Longrightarrow> 0 < j \<and> j < length df"
  proof -
    fix j assume j: "j \<in> set ?kept"
    then have l: "j < length df" and pl: "?prev_lat ! j \<noteq> None" by auto
    have "j \<noteq> 0" using pl l by (auto simp: shift_one_nth split: if_splits)
    then show "0 < j \<and> j < length df" using l by simp
  qed
  have out: "out = map (\<lambda>i. raw_point.extend (df ! i)
                            (point.fields (?step ! i) (cumul_distance_2d_column ?step ! i)
                               (map (\<lambda>c. \<lfloor>c / 1000\<rfloor>) (cumul_distance_2d_column ?step) ! i)
                               (map (\<lambda>c. \<lfloor>c / MILE\<rfloor>) (cumul_distance_2d_column ?step) ! i)
                               (nan_sub (time (df ! i)) (time (df ! hd ?kept)))
                               (?km ! i)
                               (nan_mul (nan_div (Some MILE) (?step ! i))
                                  (nan_sub (time (df ! i)) (?prev_time ! i)))))
                    ?kept"
    using assms ne by (simp add: parsers_infer_points_data_def Let_def iloc_first)
  show "out \<noteq> []" using out ne by simp
  show "\<forall>p \<in> set out. \<exists>j. 0 < j \<and> j < length df
            \<and> point_no p = point_no (df ! j) \<and> time p = time (df ! j)
            \<and> step_length_2d p = d (latitude (df ! j)) (longitude (df ! j))
                                    (latitude (df ! (j - 1))) (longitude (df ! (j - 1)))
            \<and> cumul_distance_2d p = cumul_distance_2d_column (step_length_2d_column d df) ! j"
  proof
    fix p assume "p \<in> set out"
    then obtain j where j: "j \<in> set ?kept" and p: "p = raw_point.extend (df ! j)
                            (point.fields (?step ! j) (cumul_distance_2d_column ?step ! j)
                               (map (\<lambda>c. \<lfloor>c / 1000\<rfloor>) (cumul_distance_2d_column ?step) ! j)
                               (map (\<lambda>c. \<lfloor>c / MILE\<rfloor>) (cumul_distance_2d_column ?step) ! j)
                               (nan_sub (time (df ! j)) (time (df ! hd ?kept)))
                               (?km ! j)
                               (nan_mul (nan_div (Some MILE) (?step ! j))
                                  (nan_sub (time (df ! j)) (?prev_time ! j))))"
      unfolding out by auto
    from kept [OF j] have jj: "0 < j" "j < length df" by auto
    have "step_length_2d p = d (latitude (df ! j)) (longitude (df ! j))
                                    (latitude (df ! (j - 1))) (longitude (df ! (j - 1)))"
      unfolding p using jj by (simp add: step_nth)
    then show "\<exists>j. 0 < j \<and> j < length df
            \<and> point_no p = point_no (df ! j) \<and> time p = time (df ! j)
            \<and> step_length_2d p = d (latitude (df ! j)) (longitude (df ! j))
                                    (latitude (df ! (j - 1))) (longitude (df ! (j - 1)))
            \<and> cumul_distance_2d p = cumul_distance_2d_column (step_length_2d_column d df) ! j"
      using jj p by (intro exI [of _ j]) simp
  qed
qed

text \<open>
  The newer function returns the first input row first; its step length is whatever the
  distance gives without a previous point, and its cumulative distance is that value
  with a missing one replaced by 0.
\<close>

lemma infer_first_row:
  assumes "infer_points_data d cfg df = Inr out"
  shows "step_length_2d (out ! 0) = d (latitude (df ! 0)) (longitude (df ! 0)) None None"
    and "cumul_distance_2d (out ! 0) = fillna0 (d (latitude (df ! 0)) (longitude (df ! 0)) None None)"
    and "point_no (out ! 0) = point_no (df ! 0)"
proof -
  note cols = infer_columns [OF assms]
  have ne: "df \<noteq> []" using assms infer_empty by auto
  then have pos: "0 < length out" using cols(1) by simp
  have "step_length_2d (out ! 0) = map step_length_2d out ! 0" using pos by simp
  then show s: "step_length_2d (out ! 0) = d (latitude (df ! 0)) (longitude (df ! 0)) None None"
    using cols(2) ne by (simp add: step_first)
  have stne: "step_length_2d_column d df \<noteq> []"
    using ne length_step [of d df] by (metis length_0_conv)
  have "cumul_distance_2d (out ! 0) = map cumul_distance_2d out ! 0" using pos by simp
  then show "cumul_distance_2d (out ! 0) = fillna0 (d (latitude (df ! 0)) (longitude (df ! 0)) None None)"
    using cols(3) ne stne by (simp add: cumul_first step_first)
  have i0: "iloc df 0 = Inr (df ! 0)" using ne by (simp add: iloc_def)
  show "point_no (out ! 0) = point_no (df ! 0)"
    using assms i0 ne by (auto simp: infer_points_data_def Let_def)
qed

lemma meridian_steps:
  "step_length_2d_column haversine_distance meridian_track =
     [Some 0, Some (EARTH_RADIUS * radians 1), Some (EARTH_RADIUS * radians 1),
      Some (EARTH_RADIUS * radians 1)]"
proof -
  have h: "\<And>a b :: real. \<bar>b - a\<bar> = 1 \<Longrightarrow>
      haversine_distance (Some a) (Some 0) (Some b) (Some 0) = Some (EARTH_RADIUS * radians 1)"
    using haversine_meridian by force
  show ?thesis
    by (simp add: step_length_2d_column_def Let_def meridian_track_def meridian_point_def
        shift_def upt_rec h)
qed

lemma meridian_step_pos: "0 < EARTH_RADIUS * radians 1"
  by (simp add: EARTH_RADIUS_def radians_def)

lemma smoothed_constant:
  "km_pace_smoothed [None, Some v, Some v, Some v] = [Some v, None, Some v, Some v]"
proof -
  let ?col = "[None, Some v, Some v, Some v]"
  have m: "mean ?col = Some v" by (simp add: mean_def present_def)
  have s: "std ?col = Some 0" by (simp add: std_def present_def)
  have z: "zscore ?col = [None, None, None, None]"
    by (simp add: zscore_def m s nan_sub_def nan_div_def)
  have r: "rolling_mean ?col = [Some v, None, Some v, Some v]"
    by (simp add: rolling_mean_def m shift_def Let_def nan_add_def nan_div_def)
  show ?thesis
    by (simp add: km_pace_smoothed_def where_col_def z r abs_lt_1_def upt_rec)
qed

lemma meridian_km_pace:
  "parsers_km_pace haversine_distance meridian_track =
     [None, Some (1000 / (EARTH_RADIUS * radians 1) * 10),
      Some (1000 / (EARTH_RADIUS * radians 1) * 10),
      Some (1000 / (EARTH_RADIUS * radians 1) * 10)]"
proof -
  have nz: "EARTH_RADIUS \<noteq> 0" "radians 1 \<noteq> 0"
    by (simp_all add: EARTH_RADIUS_def radians_def)
  show ?thesis
    unfolding parsers_km_pace_def Let_def meridian_steps
    using nz
    by (simp add: meridian_track_def meridian_point_def shift_def nan_sub_def nan_mul_def nan_div_def)
qed

lemma meridian_legacy_result:
  "parsers_infer_points_data haversine_distance meridian_track =
      Inr (map (\<lambda>i. raw_point.extend (meridian_track ! i)
                   (point.fields
                      ([Some 0, Some (EARTH_RADIUS * radians 1), Some (EARTH_RADIUS * radians 1),
                        Some (EARTH_RADIUS * radians 1)] ! i)
                      ([0, EARTH_RADIUS * radians 1, 2 * (EARTH_RADIUS * radians 1),
                        3 * (EARTH_RADIUS * radians 1)] ! i)
                      (map (\<lambda>c. \<lfloor>c / 1000\<rfloor>)
                         [0, EARTH_RADIUS * radians 1, 2 * (EARTH_RADIUS * radians 1),
                          3 * (EARTH_RADIUS * radians 1)] ! i)
                      (map (\<lambda>c. \<lfloor>c / MILE\<rfloor>)
                         [0, EARTH_RADIUS * radians 1, 2 * (EARTH_RADIUS * radians 1),
                          3 * (EARTH_RADIUS * radians 1)] ! i)
                      (nan_sub (time (meridian_track ! i)) (time (meridian_track ! 2)))
                      ([Some (1000 / (EARTH_RADIUS * radians 1) * 10), None,
                        Some (1000 / (EARTH_RADIUS * radians 1) * 10),
                        Some (1000 / (EARTH_RADIUS * radians 1) * 10)] ! i)
                      (nan_mul
                         (nan_div (Some MILE)
                            ([Some 0, Some (EARTH_RADIUS * radians 1),
                              Some (EARTH_RADIUS * radians 1),
                              Some (EARTH_RADIUS * radians 1)] ! i))
                         (nan_sub (time (meridian_track ! i))
                            (shift 1 None (map time meridian_track) ! i)))))
             [2, 3])"
proof -
  let ?D = "EARTH_RADIUS * radians 1"
  let ?V = "1000 / ?D * 10"
  have km: "km_pace_smoothed (parsers_km_pace haversine_distance meridian_track) =
      [Some ?V, None, Some ?V, Some ?V]"
    unfolding meridian_km_pace by (rule smoothed_constant)
  have cumul: "cumul_distance_2d_column [Some 0, Some ?D, Some ?D, Some ?D] =
      [0, ?D, 2 * ?D, 3 * ?D]"
    by (simp add: cumul_distance_2d_column_def cumsum_def fillna0_def)
  have len: "length meridian_track = 4" by (simp add: meridian_track_def)
  show ?thesis
    unfolding parsers_infer_points_data_def Let_def km meridian_steps cumul len
    by (simp add: upt_rec iloc_def)
       (simp add: meridian_track_def meridian_point_def shift_def)
qed

text \<open>
  C7 as stated: for every point sequence the first point has step distance 0 and
  cumulative distance 0. For four points one degree apart on a meridian, with the distance
  of the spec, the older function (\<^verbatim>\<open>pyft/parse/parsers.py\<close>) returns the third and the
  fourth input point: the first point of its table has the step length of one degree
  (about 111 km) and twice that as cumulative distance.
\<close>

theorem parsers_first_returned_point:
  "map point_no (projr (parsers_infer_points_data haversine_distance meridian_track)) = [2, 3]
   \<and> map step_length_2d (projr (parsers_infer_points_data haversine_distance meridian_track)) =
       [Some (EARTH_RADIUS * radians 1), Some (EARTH_RADIUS * radians 1)]
   \<and> map cumul_distance_2d (projr (parsers_infer_points_data haversine_distance meridian_track)) =
       [2 * (EARTH_RADIUS * radians 1), 3 * (EARTH_RADIUS * radians 1)]
   \<and> step_length_2d (hd (projr (parsers_infer_points_data haversine_distance meridian_track)))
       \<noteq> Some 0
   \<and> cumul_distance_2d (hd (projr (parsers_infer_points_data haversine_distance meridian_track)))
       \<noteq> 0
   \<and> \<not> isl (parsers_infer_points_data haversine_distance meridian_track)"
proof -
  have nz: "EARTH_RADIUS \<noteq> 0" "radians 1 \<noteq> 0"
    by (simp_all add: EARTH_RADIUS_def radians_def)
  show ?thesis
    unfolding meridian_legacy_result using nz
    by (simp add: meridian_track_def meridian_point_def)
qed

text \<open>
  C7 as amended. The function of \<^verbatim>\<open>pyft/serialize/parse.py\<close> returns the first input
  point first, with the step length that the distance gives when there is no previous
  point and, as cumulative distance, that value with a missing one replaced by 0; with the
  distance of the spec, which is 0 there, both are 0. The function of
  \<^verbatim>\<open>pyft/parse/parsers.py\<close> returns no first input point: every point of its table is
  an input point with a predecessor, and carries the distance from that predecessor as
  step length and the running sum up to it as cumulative distance.
\<close>

theorem first_point_distance:
  "(infer_points_data d cfg df = Inr out \<longrightarrow>
      point_no (out ! 0) = point_no (df ! 0)
      \<and> step_length_2d (out ! 0) = d (latitude (df ! 0)) (longitude (df ! 0)) None None
      \<and> cumul_distance_2d (out ! 0) =
          fillna0 (d (latitude (df ! 0)) (longitude (df ! 0)) None None))
   \<and> (infer_points_data haversine_distance cfg df = Inr out \<longrightarrow>
      step_length_2d (out ! 0) = Some 0 \<and> cumul_distance_2d (out ! 0) = 0)
   \<and> (parsers_infer_points_data d df = Inr legacy \<longrightarrow>
      legacy \<noteq> []
      \<and> (\<forall>p \<in> set legacy. \<exists>j. 0 < j \<and> j < length df
            \<and> point_no p = point_no (df ! j) \<and> time p = time (df ! j)
            \<and> step_length_2d p = d (latitude (df ! j)) (longitude (df ! j))
                                    (latitude (df ! (j - 1))) (longitude (df ! (j - 1)))
            \<and> cumul_distance_2d p =
                cumul_distance_2d_column (step_length_2d_column d df) ! j))"
proof -
  have a: "infer_points_data d cfg df = Inr out \<longrightarrow>
      point_no (out ! 0) = point_no (df ! 0)
      \<and> step_length_2d (out ! 0) = d (latitude (df ! 0)) (longitude (df ! 0)) None None
      \<and> cumul_distance_2d (out ! 0) =
          fillna0 (d (latitude (df ! 0)) (longitude (df ! 0)) None None)"
    using infer_first_row [of d cfg df out] by blast
  have b: "infer_points_data haversine_distance cfg df = Inr out \<longrightarrow>
      step_length_2d (out ! 0) = Some 0 \<and> cumul_distance_2d (out ! 0) = 0"
    using infer_first_row [of haversine_distance cfg df out] by (simp add: fillna0_def)
  have c: "parsers_infer_points_data d df = Inr legacy \<longrightarrow>
      legacy \<noteq> []
      \<and> (\<forall>p \<in> set legacy. \<exists>j. 0 < j \<and> j < length df
            \<and> point_no p = point_no (df ! j) \<and> time p = time (df ! j)
            \<and> step_length_2d p = d (latitude (df ! j)) (longitude (df ! j))
                                    (latitude (df ! (j - 1))) (longitude (df ! (j - 1)))
            \<and> cumul_distance_2d p =
                cumul_distance_2d_column (step_length_2d_column d df) ! j)"
    using parsers_rows [of d df legacy] by blast
  show ?thesis using a b c by (intro conjI)
qed

theorem first_point_distance_witness:
  "(\<exists>out. infer_points_data haversine_distance \<lparr>speed_measure_interval = 1\<rparr> meridian_track = Inr out
      \<and> point_no (out ! 0) = 0
      \<and> step_length_2d (out ! 0) = Some 0 \<and> cumul_distance_2d (out ! 0) = 0)
   \<and> (\<exists>legacy. parsers_infer_points_data haversine_distance meridian_track = Inr legacy
      \<and> legacy \<noteq> []
      \<and> (\<exists>j. 0 < j \<and> j < length meridian_track
            \<and> point_no (hd legacy) = point_no (meridian_track ! j)
            \<and> step_length_2d (hd legacy) =
                haversine_distance (latitude (meridian_track ! j)) (longitude (meridian_track ! j))
                  (latitude (meridian_track ! (j - 1))) (longitude (meridian_track ! (j - 1)))))"
proof -
  let ?cfg = "\<lparr>speed_measure_interval = 1\<rparr>"
  have ne: "meridian_track \<noteq> []" by (simp add: meridian_track_def)
  obtain out where out: "infer_points_data haversine_distance ?cfg meridian_track = Inr out"
    using infer_Inr_iff [of haversine_distance ?cfg meridian_track] ne by auto
  have p0: "point_no (meridian_track ! 0) = 0"
    by (simp add: meridian_track_def meridian_point_def)
  note t = first_point_distance [of haversine_distance ?cfg meridian_track out]
  have new: "\<exists>out. infer_points_data haversine_distance ?cfg meridian_track = Inr out
      \<and> point_no (out ! 0) = 0
      \<and> step_length_2d (out ! 0) = Some 0 \<and> cumul_distance_2d (out ! 0) = 0"
    using t out p0 by (intro exI [of _ out]) (simp add: fillna0_def)
  obtain legacy where legacy: "parsers_infer_points_data haversine_distance meridian_track = Inr legacy"
    using meridian_legacy_result by blast
  note u = first_point_distance [where d = haversine_distance and df = meridian_track
      and legacy = legacy]
  have l1: "legacy \<noteq> []" using u legacy by blast
  then have "hd legacy \<in> set legacy" by simp
  then have "\<exists>j. 0 < j \<and> j < length meridian_track
            \<and> point_no (hd legacy) = point_no (meridian_track ! j)
            \<and> step_length_2d (hd legacy) =
                haversine_distance (latitude (meridian_track ! j)) (longitude (meridian_track ! j))
                  (latitude (meridian_track ! (j - 1))) (longitude (meridian_track ! (j - 1)))"
    using u legacy by blast
  then have old: "\<exists>legacy. parsers_infer_points_data haversine_distance meridian_track = Inr legacy
      \<and> legacy \<noteq> []
      \<and> (\<exists>j. 0 < j \<and> j < length meridian_track
            \<and> point_no (hd legacy) = point_no (meridian_track ! j)
            \<and> step_length_2d (hd legacy) =
                haversine_distance (latitude (meridian_track ! j)) (longitude (meridian_track ! j))
                  (latitude (meridian_track ! (j - 1))) (longitude (meridian_track ! (j - 1))))"
    using legacy l1 by blast
  show ?thesis using new old by (rule conjI)
qed

end
